theory Spec2Isabelle
  imports Main
begin

section \<open>Errors\<close>

text \<open>
  The analyzer raises one exception class, \<open>SemanticError\<close>, and tells the failures apart
  by the message only. Each constructor below is one \<^verbatim>\<open>raise SemanticError(...)\<close> site
  of \<^verbatim>\<open>Sementic_Analyzer.py\<close>; the two wrappers are the \<^verbatim>\<open>except SemanticError as e\<close>
  handlers, which re-raise with a prefix in front of \<open>str(e)\<close>.
\<close>

datatype SemanticError =
    AlreadyDeclared string            \<comment> \<open>\<^verbatim>\<open>Symbol '{name}' already declared in this scope\<close>\<close>
  | UndeclaredSymbol string           \<comment> \<open>\<^verbatim>\<open>Undeclared symbol '{name}'\<close>\<close>
  | NotAFunction string               \<comment> \<open>\<^verbatim>\<open>'{func_name}' is not a function\<close>\<close>
  | TypeMismatch string string        \<comment> \<open>\<^verbatim>\<open>Type mismatch: cannot assign {value_type} to {expected_type}\<close>\<close>
  | InvalidNumber string              \<comment> \<open>\<^verbatim>\<open>Invalid number: {value}\<close>\<close>
  | FunctionCallError SemanticError   \<comment> \<open>\<^verbatim>\<open>Function call error: {str(e)}\<close>\<close>
  | AssignmentError SemanticError     \<comment> \<open>\<^verbatim>\<open>Assignment error: {str(e)}\<close>\<close>

text \<open>The text of the message each error carries.\<close>

fun message :: "SemanticError \<Rightarrow> string" where
  "message (AlreadyDeclared n) = ''Symbol '' @ [CHR 0x27] @ n @ [CHR 0x27] @ '' already declared in this scope''"
| "message (UndeclaredSymbol n) = ''Undeclared symbol '' @ [CHR 0x27] @ n @ [CHR 0x27]"
| "message (NotAFunction n) = [CHR 0x27] @ n @ [CHR 0x27] @ '' is not a function''"
| "message (TypeMismatch v e) = ''Type mismatch: cannot assign '' @ v @ '' to '' @ e"
| "message (InvalidNumber v) = ''Invalid number: '' @ v"
| "message (FunctionCallError e) = ''Function call error: '' @ message e"
| "message (AssignmentError e) = ''Assignment error: '' @ message e"

text \<open>
  The parser raises the plain \<open>Exception\<close> with one of five messages. The interpreter's own
  exceptions are values too: \<open>IndexError\<close> for a subscript out of range and
  \<open>AttributeError\<close> for an attribute read on \<open>None\<close>.
\<close>

datatype Token = Token (token_type: string) (token_value: string)

datatype ParseException =
    UnexpectedEndOfInput              \<comment> \<open>\<^verbatim>\<open>Unexpected end of input\<close>\<close>
  | ExpectedType string string        \<comment> \<open>\<^verbatim>\<open>Expected {expected_type}, got {token.token_type}\<close>\<close>
  | ExpectedValue string string       \<comment> \<open>\<^verbatim>\<open>Expected '{expected_value}', got '{token.value}'\<close>\<close>
  | UnexpectedType string             \<comment> \<open>\<^verbatim>\<open>Unexpected type {token.value}\<close>\<close>
  | UnexpectedToken Token             \<comment> \<open>\<^verbatim>\<open>Unexpected token in expression: {token}\<close>\<close>

datatype error =
    Semantic SemanticError
  | Exception ParseException
  | IndexError
  | AttributeError

section \<open>String operations of the host language\<close>

text \<open>
  \<open>s.split(sep)\<close> for a one-character separator: one more piece than separators, so
  the list of pieces is never empty and a character that is no separator goes in front
  of the first piece of the rest.
\<close>

primrec split :: "char \<Rightarrow> string \<Rightarrow> string list" where
  "split sep [] = [[]]"
| "split sep (c # cs) =
     (if c = sep then [] # split sep cs
      else (case split sep cs of
              w # ws \<Rightarrow> (c # w) # ws
            | [] \<Rightarrow> [[c]]))"

text \<open>\<open>s.strip(c)\<close>: drop the leading and the trailing run of \<open>c\<close>.\<close>

definition strip :: "char \<Rightarrow> string \<Rightarrow> string" where
  "strip c s = rev (dropWhile (\<lambda>x. x = c) (rev (dropWhile (\<lambda>x. x = c) s)))"

definition startswith :: "string \<Rightarrow> string \<Rightarrow> bool" where
  "startswith s p = (take (length p) s = p)"

text \<open>\<open>xs[i]\<close> for a non-negative literal index: \<open>IndexError\<close> out of range.\<close>

definition subscript :: "'a list \<Rightarrow> nat \<Rightarrow> error + 'a" where
  "subscript xs i = (if i < length xs then Inr (xs ! i) else Inl IndexError)"

section \<open>Parse tree\<close>

datatype ParseNode = ParseNode (name: string) (children: "ParseNode list")

text \<open>\<open>node.name.split('(')[0]\<close>, the key of the dispatch table.\<close>

definition node_kind :: "ParseNode \<Rightarrow> string" where
  "node_kind node = hd (split CHR ''('' (name node))"

text \<open>\<open>node.name.split('(')[1].strip(')')\<close>: the text between the parentheses of a label.\<close>

definition payload :: "ParseNode \<Rightarrow> error + string" where
  "payload node =
     (case subscript (split CHR ''('' (name node)) 1 of
        Inl e \<Rightarrow> Inl e
      | Inr s \<Rightarrow> Inr (strip CHR '')'' s))"

section \<open>Symbol table\<close>

text \<open>A symbol is the dictionary \<^verbatim>\<open>{'type': type_name, 'is_function': is_function}\<close>.\<close>

datatype Symbol = Symbol (type: string) (is_function: bool)

text \<open>
  A scope holds its own dictionary and the reference to the enclosing scope. The chain
  that starts at a table is kept as one value: the parent component is the enclosing
  table as it is now, so a declaration made in an enclosing scope through another
  reference to it is a change of that component.
\<close>

datatype SymbolTable =
  SymbolTable (symbols: "string \<rightharpoonup> Symbol") (parent: "SymbolTable option")

fun declare_symbol :: "SymbolTable \<Rightarrow> string \<Rightarrow> string \<Rightarrow> bool \<Rightarrow> error + SymbolTable" where
  "declare_symbol (SymbolTable syms par) nm type_name is_fun =
     (case syms nm of
        Some info \<Rightarrow> Inl (Semantic (AlreadyDeclared nm))
      | None \<Rightarrow> Inr (SymbolTable (syms(nm \<mapsto> Symbol type_name is_fun)) par))"

fun lookup :: "SymbolTable \<Rightarrow> string \<Rightarrow> error + Symbol" where
  "lookup (SymbolTable syms par) nm =
     (case syms nm of
        Some info \<Rightarrow> Inr info
      | None \<Rightarrow>
         (case par of
            Some p \<Rightarrow> lookup p nm
          | None \<Rightarrow> Inl (Semantic (UndeclaredSymbol nm))))"

section \<open>Number literals of the host language\<close>

text \<open>
  \<open>int(s)\<close> and \<open>float(s)\<close> are built-ins of the interpreter; the analyzer and the lexer
  only ask whether they raise \<open>ValueError\<close>. A character is a code point below 256.
  \<open>str.isspace\<close> holds of twelve of them; the two conversions strip eight of these at
  either end of the text, the four separators 28 to 31 are not among them. The limit
  that the interpreter puts on the number of digits \<open>int\<close> converts is not part of the
  model.
\<close>

definition isspace :: "char \<Rightarrow> bool" where
  "isspace c = ((of_char c :: nat) \<in> set [9, 10, 11, 12, 13, 28, 29, 30, 31, 32, 133, 160])"

definition number_space :: "char \<Rightarrow> bool" where
  "number_space c = ((of_char c :: nat) \<in> set [9, 10, 11, 12, 13, 32, 133, 160])"

definition is_decimal :: "char \<Rightarrow> bool" where
  "is_decimal c = (48 \<le> (of_char c :: nat) \<and> (of_char c :: nat) \<le> 57)"

definition strip_space :: "string \<Rightarrow> string" where
  "strip_space s = rev (dropWhile number_space (rev (dropWhile number_space s)))"

text \<open>Digits, with single underscores allowed between two digits.\<close>

fun digitpart :: "string \<Rightarrow> bool" where
  "digitpart [] = False"
| "digitpart [c] = is_decimal c"
| "digitpart (c # d # cs) =
     (is_decimal c \<and> (if d = CHR ''_'' then digitpart cs else digitpart (d # cs)))"

definition unsigned :: "string \<Rightarrow> string" where
  "unsigned s = (case s of [] \<Rightarrow> [] | c # cs \<Rightarrow> if c = CHR ''+'' \<or> c = CHR ''-'' then cs else s)"

text \<open>\<open>int(s)\<close> returns: optional sign, then digits.\<close>

definition int_ok :: "string \<Rightarrow> bool" where
  "int_ok s = digitpart (unsigned (strip_space s))"

definition lower :: "char \<Rightarrow> char" where
  "lower c = (if 65 \<le> (of_char c :: nat) \<and> (of_char c :: nat) \<le> 90
              then char_of ((of_char c :: nat) + 32) else c)"

text \<open>\<open>[digitpart] "." digitpart | digitpart ["."]\<close>\<close>

definition pointfloat :: "string \<Rightarrow> bool" where
  "pointfloat s =
     (let a = takeWhile (\<lambda>c. c \<noteq> CHR ''.'') s; r = dropWhile (\<lambda>c. c \<noteq> CHR ''.'') s
      in case r of
           [] \<Rightarrow> digitpart a
         | dot # b \<Rightarrow> (a = [] \<and> digitpart b) \<or> (digitpart a \<and> (b = [] \<or> digitpart b)))"

text \<open>A number with an optional exponent \<open>("e" | "E") [sign] digitpart\<close>.\<close>

definition floatnumber :: "string \<Rightarrow> bool" where
  "floatnumber s =
     (let is_e = (\<lambda>c. c = CHR ''e'' \<or> c = CHR ''E'');
          m = takeWhile (\<lambda>c. \<not> is_e c) s; r = dropWhile (\<lambda>c. \<not> is_e c) s
      in case r of
           [] \<Rightarrow> pointfloat m
         | e # x \<Rightarrow> pointfloat m \<and> digitpart (unsigned x))"

text \<open>\<open>float(s)\<close> returns: optional sign, then \<open>inf\<close>, \<open>infinity\<close> or \<open>nan\<close> in any case, or a number.\<close>

definition float_ok :: "string \<Rightarrow> bool" where
  "float_ok s =
     (let t = unsigned (strip_space s)
      in map lower t \<in> set [''inf'', ''infinity'', ''nan''] \<or> floatnumber t)"

section \<open>Semantic analyzer\<close>

text \<open>
  \<open>_is_compatible_type(type1, type2)\<close>: the table is a dictionary from the declared type to
  the list of value types it accepts; a declared type that is not a key accepts nothing.
\<close>

definition compatible_types :: "(string \<times> string list) list" where
  "compatible_types =
     [(''int'', [''int'']),
      (''float'', [''int'', ''float'']),
      (''double'', [''int'', ''float'', ''double'']),
      (''char'', [''char''])]"

definition is_compatible_type :: "string \<Rightarrow> string \<Rightarrow> bool" where
  "is_compatible_type type1 type2 =
     (type2 \<in> set (case map_of compatible_types type1 of Some l \<Rightarrow> l | None \<Rightarrow> []))"

definition infer_number_type :: "ParseNode \<Rightarrow> error + string" where
  "infer_number_type number_node =
     (case payload number_node of
        Inl e \<Rightarrow> Inl e
      | Inr v \<Rightarrow>
          if int_ok v then Inr ''int''
          else if float_ok v then Inr ''double''
          else Inl (Semantic (InvalidNumber v)))"

text \<open>
  \<open>_type_check_assignment\<close>. In the identifier branch both the failed lookup and the
  mismatch are raised inside the \<open>try\<close>, so both come out wrapped; the label is taken apart
  before the \<open>try\<close>. A value node of any other kind is not checked.
\<close>

definition type_check_assignment :: "SymbolTable \<Rightarrow> string \<Rightarrow> ParseNode \<Rightarrow> error + unit" where
  "type_check_assignment cur expected_type value_node =
     (if startswith (name value_node) ''Number'' then
        (case infer_number_type value_node of
           Inl e \<Rightarrow> Inl e
         | Inr value_type \<Rightarrow>
             if \<not> is_compatible_type expected_type value_type
             then Inl (Semantic (TypeMismatch value_type expected_type))
             else Inr ())
      else if startswith (name value_node) ''Identifier'' then
        (case payload value_node of
           Inl e \<Rightarrow> Inl e
         | Inr var_name \<Rightarrow>
            (case lookup cur var_name of
               Inl (Semantic e) \<Rightarrow> Inl (Semantic (AssignmentError e))
             | Inl e \<Rightarrow> Inl e
             | Inr var_info \<Rightarrow>
                 if \<not> is_compatible_type expected_type (type var_info)
                 then Inl (Semantic (AssignmentError (TypeMismatch (type var_info) expected_type)))
                 else Inr ()))
      else Inr ())"

definition analyze_variable_declaration :: "SymbolTable \<Rightarrow> ParseNode \<Rightarrow> error + SymbolTable" where
  "analyze_variable_declaration cur node =
     (case subscript (children node) 0 of Inl e \<Rightarrow> Inl e | Inr c0 \<Rightarrow>
     (case payload c0 of Inl e \<Rightarrow> Inl e | Inr var_type \<Rightarrow>
     (case subscript (children node) 1 of Inl e \<Rightarrow> Inl e | Inr c1 \<Rightarrow>
     (case payload c1 of Inl e \<Rightarrow> Inl e | Inr var_name \<Rightarrow>
     (case (if length (children node) > 2
            then (case subscript (children node) 2 of
                    Inl e \<Rightarrow> Inl e
                  | Inr init_node \<Rightarrow> type_check_assignment cur var_type init_node)
            else Inr ()) of
        Inl e \<Rightarrow> Inl e
      | Inr u \<Rightarrow> declare_symbol cur var_name var_type False)))))"

text \<open>\<open>_analyze_function_call\<close>: only \<open>children[0]\<close> is read; the table is left as it is.\<close>

definition analyze_function_call :: "SymbolTable \<Rightarrow> ParseNode \<Rightarrow> error + SymbolTable" where
  "analyze_function_call cur node =
     (case subscript (children node) 0 of Inl e \<Rightarrow> Inl e | Inr c0 \<Rightarrow>
     (case payload c0 of Inl e \<Rightarrow> Inl e | Inr func_name \<Rightarrow>
     (case lookup cur func_name of
        Inl (Semantic e) \<Rightarrow> Inl (Semantic (FunctionCallError e))
      | Inl e \<Rightarrow> Inl e
      | Inr func_info \<Rightarrow>
          if \<not> is_function func_info
          then Inl (Semantic (FunctionCallError (NotAFunction func_name)))
          else Inr cur)))"

text \<open>
  The tree walk. \<open>_analyze_function\<close> makes a fresh table, with the current one as its
  parent, the current table, declares the function in the table that was current, walks
  the body and makes that table current again. The table that was current is, after the
  body, the parent component of the chain the body leaves; the chain a walk leaves always
  has the parent it started with (\<open>analyze_parent\<close> below), so the other branch is
  never taken.
\<close>

function analyze_node :: "SymbolTable \<Rightarrow> ParseNode \<Rightarrow> error + SymbolTable"
  and analyze_program :: "SymbolTable \<Rightarrow> ParseNode \<Rightarrow> error + SymbolTable"
  and analyze_function :: "SymbolTable \<Rightarrow> ParseNode \<Rightarrow> error + SymbolTable"
  and analyze_expression_statement :: "SymbolTable \<Rightarrow> ParseNode \<Rightarrow> error + SymbolTable"
  and default_analysis :: "SymbolTable \<Rightarrow> ParseNode \<Rightarrow> error + SymbolTable"
  and analyze_children :: "SymbolTable \<Rightarrow> ParseNode list \<Rightarrow> error + SymbolTable"
where
  "analyze_node cur (ParseNode nm cs) =
     (let method = node_kind (ParseNode nm cs) in
      if method = ''Program'' then analyze_program cur (ParseNode nm cs)
      else if method = ''Function'' then analyze_function cur (ParseNode nm cs)
      else if method = ''VariableDeclaration'' then analyze_variable_declaration cur (ParseNode nm cs)
      else if method = ''FunctionCall'' then analyze_function_call cur (ParseNode nm cs)
      else if method = ''ExpressionStatement'' then analyze_expression_statement cur (ParseNode nm cs)
      else default_analysis cur (ParseNode nm cs))"
| "analyze_program cur (ParseNode nm cs) = analyze_children cur cs"
| "analyze_expression_statement cur (ParseNode nm cs) = analyze_children cur cs"
| "default_analysis cur (ParseNode nm cs) = analyze_children cur cs"
| "analyze_children cur [] = Inr cur"
| "analyze_children cur (child # rest) =
     (case analyze_node cur child of
        Inl e \<Rightarrow> Inl e
      | Inr cur' \<Rightarrow> analyze_children cur' rest)"
| "analyze_function cur (ParseNode nm cs) =
     (case subscript cs 0 of Inl e \<Rightarrow> Inl e | Inr c0 \<Rightarrow>
     (case payload c0 of Inl e \<Rightarrow> Inl e | Inr return_type \<Rightarrow>
     (case subscript cs 1 of Inl e \<Rightarrow> Inl e | Inr c1 \<Rightarrow>
     (case payload c1 of Inl e \<Rightarrow> Inl e | Inr func_name \<Rightarrow>
     (case declare_symbol cur func_name return_type True of Inl e \<Rightarrow> Inl e | Inr prev \<Rightarrow>
     (case subscript cs 2 of Inl e \<Rightarrow> Inl e | Inr body \<Rightarrow>
     (case analyze_node (SymbolTable Map.empty (Some prev)) body of
        Inl e \<Rightarrow> Inl e
      | Inr inner \<Rightarrow> Inr (case parent inner of Some p \<Rightarrow> p | None \<Rightarrow> prev))))))))"
  by pat_completeness auto
termination
  apply (relation "measure (\<lambda>x. case x of
      Inl (Inl (cur, node)) \<Rightarrow> 2 * size node + 1
    | Inl (Inr (Inl (cur, node))) \<Rightarrow> 2 * size node
    | Inl (Inr (Inr (cur, node))) \<Rightarrow> 2 * size node
    | Inr (Inl (cur, node)) \<Rightarrow> 2 * size node
    | Inr (Inr (Inl (cur, node))) \<Rightarrow> 2 * size node
    | Inr (Inr (Inr (cur, cs))) \<Rightarrow> 2 * size_list size cs + 1)")
  apply simp_all
  apply (auto simp: subscript_def split: if_splits)
  subgoal premises prems for cur cs ba bc bd
    using size_list_estimation' [OF nth_mem [OF prems(5)], of "size (cs ! 2)" size]
    by simp
  done



text \<open>
  \<open>__init__\<close>. The argument is \<open>None\<close> or a dictionary, given here as the list of its
  items in iteration order; \<open>predefined_functions or default_functions\<close> takes the default
  for \<open>None\<close> and for the empty dictionary alike.
\<close>

definition default_functions :: "(string \<times> Symbol) list" where
  "default_functions =
     [(''printf'', Symbol ''int'' True),
      (''puts'', Symbol ''int'' True),
      (''getchar'', Symbol ''int'' True),
      (''scanf'', Symbol ''int'' True)]"

fun declare_all :: "SymbolTable \<Rightarrow> (string \<times> Symbol) list \<Rightarrow> error + SymbolTable" where
  "declare_all tab [] = Inr tab"
| "declare_all tab ((nm, info) # rest) =
     (case declare_symbol tab nm (type info) (is_function info) of
        Inl e \<Rightarrow> Inl e
      | Inr tab' \<Rightarrow> declare_all tab' rest)"

definition SemanticAnalyzer :: "(string \<times> Symbol) list option \<Rightarrow> error + SymbolTable" where
  "SemanticAnalyzer predefined_functions =
     (let functions_to_add =
            (case predefined_functions of
               None \<Rightarrow> default_functions
             | Some d \<Rightarrow> if d = [] then default_functions else d)
      in declare_all (SymbolTable Map.empty None) functions_to_add)"

text \<open>
  The analyzer keeps two references, to the global table and to the current one. The
  global table is the outermost table of the current chain: the constructor makes both
  the same table, and only \<open>_analyze_function\<close> moves the current one, to a child of it.
\<close>

fun global_symbol_table :: "SymbolTable \<Rightarrow> SymbolTable" where
  "global_symbol_table (SymbolTable syms par) =
     (case par of None \<Rightarrow> SymbolTable syms par | Some p \<Rightarrow> global_symbol_table p)"

definition analyze :: "SymbolTable \<Rightarrow> ParseNode \<Rightarrow> error + SymbolTable" where
  "analyze cur parse_tree =
     (case analyze_node cur parse_tree of
        Inl e \<Rightarrow> Inl e
      | Inr cur' \<Rightarrow> Inr (global_symbol_table cur'))"

section \<open>Lexer\<close>

text \<open>\<open>string.punctuation\<close> is the 32 printable ASCII characters that are no letter or digit.\<close>

definition punctuation :: "char \<Rightarrow> bool" where
  "punctuation ch =
     (let n = (of_char ch :: nat)
      in (33 \<le> n \<and> n \<le> 47) \<or> (58 \<le> n \<and> n \<le> 64) \<or> (91 \<le> n \<and> n \<le> 96) \<or> (123 \<le> n \<and> n \<le> 126))"

definition is_punctuator :: "char \<Rightarrow> bool" where
  "is_punctuator ch = (punctuation ch \<or> isspace ch)"

definition isdigit :: "char \<Rightarrow> bool" where
  "isdigit c = (is_decimal c \<or> (of_char c :: nat) \<in> set [178, 179, 185])"

definition valid_identifier :: "string \<Rightarrow> bool" where
  "valid_identifier s =
     (case s of
        [] \<Rightarrow> False
      | c # cs \<Rightarrow>
          if isdigit c \<or> is_punctuator c then False
          else list_all (\<lambda>ch. \<not> is_punctuator ch) cs)"

definition is_operator :: "char \<Rightarrow> bool" where
  "is_operator ch = (ch \<in> set ''+-*/><|&='')"

definition is_keyword :: "string \<Rightarrow> bool" where
  "is_keyword s =
     (s \<in> set [''if'', ''else'', ''while'', ''do'', ''break'', ''continue'', ''int'', ''double'',
               ''float'', ''return'', ''char'', ''case'', ''long'', ''short'', ''typedef'', ''switch'',
               ''unsigned'', ''void'', ''static'', ''struct'', ''sizeof'', ''volatile'', ''enum'',
               ''const'', ''union'', ''extern'', ''bool''])"

definition is_number :: "string \<Rightarrow> bool" where
  "is_number s = float_ok s"

text \<open>The token a maximal run of characters becomes.\<close>

definition classify :: "string \<Rightarrow> Token" where
  "classify sub =
     (if is_keyword sub then Token ''KEYWORD'' sub
      else if is_number sub then Token ''NUMBER'' sub
      else if valid_identifier sub then Token ''IDENTIFIER'' sub
      else Token ''INVALID IDENTIFIER'' sub)"

function Lexer_loop :: "string \<Rightarrow> nat \<Rightarrow> nat \<Rightarrow> Token list \<Rightarrow> Token list" where
  "Lexer_loop s left right tokens =
     (if right \<le> length s \<and> left \<le> right then
        if right < length s \<and> \<not> is_punctuator (s ! right) then
          Lexer_loop s left (right + 1) tokens
        else if right < length s \<and> is_punctuator (s ! right) \<and> left = right then
          Lexer_loop s (right + 1) (right + 1)
            (if is_operator (s ! right) then tokens @ [Token ''OPERATOR'' [s ! right]]
             else if s ! right \<in> set ''(){};'' then tokens @ [Token ''DELIMITER'' [s ! right]]
             else tokens)
        else if (right = length s \<or> is_punctuator (s ! right)) \<and> left \<noteq> right then
          Lexer_loop s right right (tokens @ [classify (take (right - left) (drop left s))])
        else Lexer_loop s left (right + 1) tokens
      else tokens)"
  by pat_completeness auto
termination
  by (relation "measure (\<lambda>(s, left, right, tokens).
        2 * (length s + 1 - right) + (if left \<noteq> right then 1 else 0))") auto

definition Lexer :: "string \<Rightarrow> Token list" where
  "Lexer s = Lexer_loop s 0 0 []"

section \<open>Parser\<close>

datatype Parser = Parser (tokens: "Token list") (index: nat)

definition current_token :: "Parser \<Rightarrow> Token option" where
  "current_token p =
     (if index p < length (tokens p) then Some (tokens p ! index p) else None)"

text \<open>
  \<open>consume\<close>: an expectation that is \<open>None\<close> or the empty string is not checked. The
  parser moves one token forward and returns the token.
\<close>

definition consume :: "Parser \<Rightarrow> string option \<Rightarrow> string option \<Rightarrow> error + Token \<times> Parser" where
  "consume p expected_type expected_value =
     (case current_token p of
        None \<Rightarrow> Inl (Exception UnexpectedEndOfInput)
      | Some token \<Rightarrow>
         (case (case expected_type of
                  Some t \<Rightarrow> if t \<noteq> [] \<and> token_type token \<noteq> t
                            then Some (ExpectedType t (token_type token)) else None
                | None \<Rightarrow> None) of
            Some e \<Rightarrow> Inl (Exception e)
          | None \<Rightarrow>
             (case (case expected_value of
                      Some v \<Rightarrow> if v \<noteq> [] \<and> token_value token \<noteq> v
                                then Some (ExpectedValue v (token_value token)) else None
                    | None \<Rightarrow> None) of
                Some e \<Rightarrow> Inl (Exception e)
              | None \<Rightarrow> Inr (token, Parser (tokens p) (index p + 1)))))"

text \<open>\<open>self.current_token() and self.current_token().value == v\<close>, and the same with \<open>!=\<close>.\<close>

definition value_is :: "Parser \<Rightarrow> string \<Rightarrow> bool" where
  "value_is p v = (case current_token p of None \<Rightarrow> False | Some t \<Rightarrow> token_value t = v)"

definition value_is_not :: "Parser \<Rightarrow> string \<Rightarrow> bool" where
  "value_is_not p v = (case current_token p of None \<Rightarrow> False | Some t \<Rightarrow> token_value t \<noteq> v)"

definition parse_type :: "Parser \<Rightarrow> error + ParseNode \<times> Parser" where
  "parse_type p =
     (case consume p (Some ''KEYWORD'') None of
        Inl e \<Rightarrow> Inl e
      | Inr (token, p') \<Rightarrow>
          if token_value token \<notin> set [''int'', ''float'', ''double'', ''char'']
          then Inl (Exception (UnexpectedType (token_value token)))
          else Inr (ParseNode (''Type('' @ token_value token @ '')'') [], p'))"

text \<open>
  The parse methods call each other, and the loops run as long as tokens remain. They
  are defined by recursion on a bound on the depth of calls and the number of loop
  rounds; \<open>None\<close> says the bound was too small, and is no behaviour of the parser.
  A step that cannot recurse is lifted with \<open>Some\<close>.
\<close>

definition and_then ::
  "(error + 'a \<times> Parser) option \<Rightarrow> ('a \<Rightarrow> Parser \<Rightarrow> (error + 'b \<times> Parser) option)
     \<Rightarrow> (error + 'b \<times> Parser) option" where
  "and_then m f =
     (case m of
        None \<Rightarrow> None
      | Some (Inl e) \<Rightarrow> Some (Inl e)
      | Some (Inr (a, p)) \<Rightarrow> f a p)"

fun parse_expression :: "nat \<Rightarrow> Parser \<Rightarrow> (error + ParseNode \<times> Parser) option"
  and parse_function_call :: "nat \<Rightarrow> Parser \<Rightarrow> ParseNode \<Rightarrow> (error + ParseNode \<times> Parser) option"
  and parse_argument_list :: "nat \<Rightarrow> Parser \<Rightarrow> (error + ParseNode list \<times> Parser) option"
  and parse_argument_loop :: "nat \<Rightarrow> Parser \<Rightarrow> ParseNode list \<Rightarrow> (error + ParseNode list \<times> Parser) option"
where
  "parse_expression 0 p = None"
| "parse_expression (Suc n) p =
     (case current_token p of
        None \<Rightarrow> Some (Inl AttributeError)
      | Some token \<Rightarrow>
          if token_type token = ''NUMBER'' then
            and_then (Some (consume p (Some ''NUMBER'') None)) (\<lambda>t p1.
            Some (Inr (ParseNode (''Number('' @ token_value token @ '')'') [], p1)))
          else if token_type token = ''IDENTIFIER'' then
            and_then (Some (consume p (Some ''IDENTIFIER'') None)) (\<lambda>t p1.
            if value_is p1 ''(''
            then parse_function_call n p1 (ParseNode (''Identifier('' @ token_value token @ '')'') [])
            else Some (Inr (ParseNode (''Identifier('' @ token_value token @ '')'') [], p1)))
          else Some (Inl (Exception (UnexpectedToken token))))"
| "parse_function_call 0 p id_node = None"
| "parse_function_call (Suc n) p id_node =
     and_then (Some (consume p (Some ''DELIMITER'') (Some ''(''))) (\<lambda>t p1.
     and_then (parse_argument_list n p1) (\<lambda>args_node p2.
     and_then (Some (consume p2 (Some ''DELIMITER'') (Some '')''))) (\<lambda>t p3.
     Some (Inr (ParseNode ''FunctionCall'' ([id_node] @ args_node), p3)))))"
| "parse_argument_list 0 p = None"
| "parse_argument_list (Suc n) p =
     (if value_is_not p '')'' then
        and_then (parse_expression n p) (\<lambda>e p1. parse_argument_loop n p1 [e])
      else Some (Inr ([], p)))"
| "parse_argument_loop 0 p args = None"
| "parse_argument_loop (Suc n) p args =
     (if value_is p '','' then
        and_then (Some (consume p (Some ''DELIMITER'') (Some '',''))) (\<lambda>t p1.
        and_then (parse_expression n p1) (\<lambda>e p2.
        parse_argument_loop n p2 (args @ [e])))
      else Some (Inr (args, p)))"

fun parse_declaration :: "nat \<Rightarrow> Parser \<Rightarrow> (error + ParseNode \<times> Parser) option"
  and parse_function :: "nat \<Rightarrow> Parser \<Rightarrow> ParseNode \<Rightarrow> ParseNode \<Rightarrow> (error + ParseNode \<times> Parser) option"
  and parse_declaration_list :: "nat \<Rightarrow> Parser \<Rightarrow> ParseNode list \<Rightarrow> (error + ParseNode \<times> Parser) option"
where
  "parse_declaration 0 p = None"
| "parse_declaration (Suc n) p =
     (case current_token p of
        None \<Rightarrow> Some (Inl AttributeError)
      | Some token \<Rightarrow>
          if token_type token = ''KEYWORD'' then
            and_then (Some (parse_type p)) (\<lambda>type_node p1.
            and_then (Some (consume p1 (Some ''IDENTIFIER'') None)) (\<lambda>id_token p2.
            if value_is p2 ''('' then
              parse_function n p2 type_node (ParseNode (''Identifier('' @ token_value id_token @ '')'') [])
            else if value_is p2 ''='' then
              and_then (Some (consume p2 (Some ''OPERATOR'') None)) (\<lambda>t p3.
              and_then (parse_expression n p3) (\<lambda>expr_node p4.
              and_then (Some (consume p4 (Some ''DELIMITER'') None)) (\<lambda>t p5.
              Some (Inr (ParseNode ''VariableDeclaration''
                [type_node, ParseNode (''Identifier('' @ token_value id_token @ '')'') [], expr_node], p5)))))
            else
              and_then (Some (consume p2 (Some ''DELIMITER'') None)) (\<lambda>t p3.
              Some (Inr (ParseNode ''VariableDeclaration''
                [type_node, ParseNode (''Identifier('' @ token_value id_token @ '')'') []], p3)))))
          else
            and_then (parse_expression n p) (\<lambda>expr_node p1.
            and_then (Some (consume p1 (Some ''DELIMITER'') None)) (\<lambda>t p2.
            Some (Inr (ParseNode ''ExpressionStatement'' [expr_node], p2)))))"
| "parse_function 0 p type_node id_node = None"
| "parse_function (Suc n) p type_node id_node =
     and_then (Some (consume p (Some ''DELIMITER'') (Some ''(''))) (\<lambda>t p1.
     and_then (Some (consume p1 (Some ''DELIMITER'') (Some '')''))) (\<lambda>t p2.
     and_then (Some (consume p2 (Some ''DELIMITER'') (Some ''{''))) (\<lambda>t p3.
     and_then (parse_declaration_list n p3 []) (\<lambda>body_node p4.
     and_then (Some (consume p4 (Some ''DELIMITER'') (Some ''}''))) (\<lambda>t p5.
     Some (Inr (ParseNode ''Function'' [type_node, id_node, body_node], p5)))))))"
| "parse_declaration_list 0 p cs = None"
| "parse_declaration_list (Suc n) p cs =
     (if value_is_not p ''}'' then
        and_then (parse_declaration n p) (\<lambda>d p1. parse_declaration_list n p1 (cs @ [d]))
      else Some (Inr (ParseNode ''DeclarationList'' cs, p)))"

fun parse_program_loop :: "nat \<Rightarrow> Parser \<Rightarrow> ParseNode list \<Rightarrow> (error + ParseNode \<times> Parser) option" where
  "parse_program_loop 0 p cs = None"
| "parse_program_loop (Suc n) p cs =
     (if index p < length (tokens p) then
        and_then (parse_declaration n p) (\<lambda>d p1. parse_program_loop n p1 (cs @ [d]))
      else Some (Inr (ParseNode ''Program'' cs, p)))"

definition parse_program :: "nat \<Rightarrow> Parser \<Rightarrow> (error + ParseNode) option" where
  "parse_program n p =
     (case parse_program_loop n p [] of
        None \<Rightarrow> None
      | Some (Inl e) \<Rightarrow> Some (Inl e)
      | Some (Inr (node, p')) \<Rightarrow> Some (Inr node))"

section \<open>The pipeline\<close>

text \<open>
  \<open>Lexer\<close>, then \<open>Parser(tokens).parse_program()\<close>, then
  \<open>SemanticAnalyzer(predefined_functions).analyze(tree)\<close>, as \<open>main\<close> chains them. The
  analyzer is constructed first, the tree is parsed when \<open>analyze\<close> is called.
\<close>

definition run :: "nat \<Rightarrow> (string \<times> Symbol) list option \<Rightarrow> string \<Rightarrow> (error + SymbolTable) option" where
  "run n predefined_functions src =
     (case SemanticAnalyzer predefined_functions of
        Inl e \<Rightarrow> Some (Inl e)
      | Inr cur \<Rightarrow>
         (case parse_program n (Parser (Lexer src) 0) of
            None \<Rightarrow> None
          | Some (Inl e) \<Rightarrow> Some (Inl e)
          | Some (Inr tree) \<Rightarrow> Some (analyze cur tree)))"


section \<open>Views used to state the properties\<close>

text \<open>The dictionaries of a chain, innermost first.\<close>

fun scopes :: "SymbolTable \<Rightarrow> (string \<rightharpoonup> Symbol) list" where
  "scopes (SymbolTable syms par) =
     syms # (case par of None \<Rightarrow> [] | Some p \<Rightarrow> scopes p)"

text \<open>The labels the parser gives to a type, an identifier and a number.\<close>

definition Type_node :: "string \<Rightarrow> ParseNode" where
  "Type_node t = ParseNode (''Type('' @ t @ '')'') []"

definition Identifier_node :: "string \<Rightarrow> ParseNode" where
  "Identifier_node x = ParseNode (''Identifier('' @ x @ '')'') []"

definition Number_node :: "string \<Rightarrow> ParseNode" where
  "Number_node v = ParseNode (''Number('' @ v @ '')'') []"

text \<open>A text without parentheses, as every token of the lexer but the delimiters is.\<close>

definition plain :: "string \<Rightarrow> bool" where
  "plain v = (CHR ''('' \<notin> set v \<and> CHR '')'' \<notin> set v)"

section \<open>Labels, scope chains and the dispatch\<close>

lemma split_no_sep: "sep \<notin> set v \<Longrightarrow> split sep v = [v]"
  by (induction v) auto

lemma split_append_sep: "sep \<notin> set k \<Longrightarrow> split sep (k @ sep # r) = k # split sep r"
  by (induction k) auto

lemma dropWhile_eq_absent: "c \<notin> set v \<Longrightarrow> dropWhile (\<lambda>x. x = c) v = v"
  by (cases v) auto

lemma strip_closing: "c \<notin> set v \<Longrightarrow> strip c (v @ [c]) = v"
proof (cases v)
  case Nil
  then show ?thesis by (simp add: strip_def)
next
  case (Cons a w)
  assume c: "c \<notin> set v"
  with Cons have "a \<noteq> c" by auto
  with Cons have "dropWhile (\<lambda>x. x = c) (v @ [c]) = v @ [c]" by simp
  moreover have "dropWhile (\<lambda>x. x = c) (rev v) = rev v"
    using c by (simp add: dropWhile_eq_absent)
  ultimately show ?thesis by (simp add: strip_def)
qed

lemma payload_label:
  assumes "CHR ''('' \<notin> set k" and "plain v"
  shows "payload (ParseNode (k @ ''('' @ v @ '')'') cs) = Inr v"
proof -
  have "split CHR ''('' (k @ CHR ''('' # (v @ '')'')) = [k, v @ '')'']"
    using assms by (simp add: split_append_sep split_no_sep plain_def)
  then show ?thesis
    using assms by (simp add: payload_def subscript_def strip_closing plain_def)
qed

lemma payload_Type_node: "plain t \<Longrightarrow> payload (Type_node t) = Inr t"
  using payload_label [of "''Type''" t "[]"] by (simp add: Type_node_def)

lemma payload_Identifier_node: "plain x \<Longrightarrow> payload (Identifier_node x) = Inr x"
  using payload_label [of "''Identifier''" x "[]"] by (simp add: Identifier_node_def)

lemma payload_Number_node: "plain v \<Longrightarrow> payload (Number_node v) = Inr v"
  using payload_label [of "''Number''" v "[]"] by (simp add: Number_node_def)

lemma lookup_scopes:
  "lookup tab nm =
     (case find (\<lambda>m. m nm \<noteq> None) (scopes tab) of
        None \<Rightarrow> Inl (Semantic (UndeclaredSymbol nm))
      | Some m \<Rightarrow> Inr (the (m nm)))"
  by (induction tab nm rule: lookup.induct) (auto split: option.splits)

lemma lookup_absent:
  "(\<forall>m \<in> set (scopes tab). m nm = None) \<longleftrightarrow> lookup tab nm = Inl (Semantic (UndeclaredSymbol nm))"
  by (induction tab nm rule: lookup.induct) (auto split: option.splits)

lemma declare_symbol_eq:
  "declare_symbol tab nm ty f =
     (if nm \<in> dom (symbols tab) then Inl (Semantic (AlreadyDeclared nm))
      else Inr (SymbolTable ((symbols tab)(nm \<mapsto> Symbol ty f)) (parent tab)))"
  by (cases tab) (auto split: option.splits)

lemma node_kind_plain: "CHR ''('' \<notin> set nm \<Longrightarrow> node_kind (ParseNode nm cs) = nm"
  by (simp add: node_kind_def split_no_sep)

lemma analyze_node_VariableDeclaration:
  "analyze_node cur (ParseNode ''VariableDeclaration'' cs) =
     analyze_variable_declaration cur (ParseNode ''VariableDeclaration'' cs)"
  by (simp add: node_kind_plain)

lemma analyze_node_FunctionCall:
  "analyze_node cur (ParseNode ''FunctionCall'' cs) =
     analyze_function_call cur (ParseNode ''FunctionCall'' cs)"
  by (simp add: node_kind_plain)

lemma analyze_node_Function:
  "analyze_node cur (ParseNode ''Function'' cs) = analyze_function cur (ParseNode ''Function'' cs)"
  by (simp add: node_kind_plain del: analyze_function.simps)

lemma variable_declaration_init:
  assumes "payload c0 = Inr T" and "payload c1 = Inr x"
  shows "analyze_variable_declaration cur (ParseNode nm (c0 # c1 # init # rest)) =
     (case type_check_assignment cur T init of
        Inl e \<Rightarrow> Inl e
      | Inr u \<Rightarrow> declare_symbol cur x T False)"
  using assms by (simp add: analyze_variable_declaration_def subscript_def)

lemma variable_declaration_plain:
  assumes "payload c0 = Inr T" and "payload c1 = Inr x"
  shows "analyze_variable_declaration cur (ParseNode nm [c0, c1]) = declare_symbol cur x T False"
  using assms by (simp add: analyze_variable_declaration_def subscript_def)

lemma lookup_declared:
  "declare_symbol cur x T f = Inr cur' \<Longrightarrow> lookup cur' x = Inr (Symbol T f)"
  by (cases cur) (auto split: option.splits)

lemma is_compatible_type_iff:
  "is_compatible_type t1 t2 \<longleftrightarrow>
     (t1 = ''int'' \<and> t2 = ''int'') \<or>
     (t1 = ''float'' \<and> (t2 = ''int'' \<or> t2 = ''float'')) \<or>
     (t1 = ''double'' \<and> (t2 = ''int'' \<or> t2 = ''float'' \<or> t2 = ''double'')) \<or>
     (t1 = ''char'' \<and> t2 = ''char'')"
  by (auto simp: is_compatible_type_def compatible_types_def)

lemma startswith_Number_node: "startswith (name (Number_node v)) ''Number''"
  by (simp add: startswith_def Number_node_def)

lemma startswith_Identifier_node:
  "startswith (name (Identifier_node v)) ''Identifier'' \<and> \<not> startswith (name (Identifier_node v)) ''Number''"
  by (simp add: startswith_def Identifier_node_def)

lemma int_ok_5: "int_ok ''5''"
  by code_simp

lemma float_5_0: "\<not> int_ok ''5.0'' \<and> float_ok ''5.0''"
  by code_simp

lemma plain_literals: "plain ''int''" "plain ''double''" "plain ''x''" "plain ''y''" "plain ''5''" "plain ''5.0''"
  by (simp_all add: plain_def)

lemma infer_5: "infer_number_type (Number_node ''5'') = Inr ''int''"
  by (simp add: infer_number_type_def payload_Number_node plain_literals int_ok_5)

lemma infer_5_0: "infer_number_type (Number_node ''5.0'') = Inr ''double''"
  by (simp add: infer_number_type_def payload_Number_node plain_literals float_5_0)

lemma lookup_error: "lookup tab nm = Inl e \<Longrightarrow> e = Semantic (UndeclaredSymbol nm)"
  by (induction tab nm rule: lookup.induct) (auto split: option.splits)

lemma function_call_result:
  assumes "payload callee = Inr f"
  shows "analyze_function_call cur (ParseNode nm (callee # args)) =
     (case lookup cur f of
        Inl e \<Rightarrow> Inl (Semantic (FunctionCallError (UndeclaredSymbol f)))
      | Inr info \<Rightarrow>
          if is_function info then Inr cur
          else Inl (Semantic (FunctionCallError (NotAFunction f))))"
proof (cases "lookup cur f")
  case (Inl e)
  with lookup_error [OF Inl] assms show ?thesis
    by (simp add: analyze_function_call_def subscript_def)
next
  case (Inr info)
  with assms show ?thesis
    by (simp add: analyze_function_call_def subscript_def)
qed

section \<open>The tree walk keeps the enclosing scopes\<close>

lemma declare_symbol_parent:
  "declare_symbol cur nm ty f = Inr r \<Longrightarrow> parent r = parent cur"
  by (cases cur) (auto split: option.splits)

lemma variable_declaration_parent:
  "analyze_variable_declaration cur node = Inr r \<Longrightarrow> parent r = parent cur"
  by (auto simp: analyze_variable_declaration_def declare_symbol_parent split: sum.splits if_splits)

lemma function_call_unchanged:
  "analyze_function_call cur node = Inr r \<Longrightarrow> r = cur"
  by (auto simp: analyze_function_call_def split: sum.splits if_splits error.splits)

lemma analyze_function_Inr:
  assumes a: "analyze_function cur (ParseNode nm cs) = Inr r"
  obtains c0 rt c1 fn prev body inner where
    "subscript cs 0 = Inr c0" "payload c0 = Inr rt"
    "subscript cs 1 = Inr c1" "payload c1 = Inr fn"
    "declare_symbol cur fn rt True = Inr prev"
    "subscript cs 2 = Inr body"
    "analyze_node (SymbolTable Map.empty (Some prev)) body = Inr inner"
    "r = (case parent inner of Some p \<Rightarrow> p | None \<Rightarrow> prev)"
proof -
  obtain c0 where c0: "subscript cs 0 = Inr c0"
    using a by (cases "subscript cs 0") simp_all
  obtain rt where rt: "payload c0 = Inr rt"
    using a c0 by (cases "payload c0") simp_all
  obtain c1 where c1: "subscript cs 1 = Inr c1"
    using a c0 rt by (cases "subscript cs 1") simp_all
  obtain fn where fn: "payload c1 = Inr fn"
    using a c0 rt c1 by (cases "payload c1") simp_all
  obtain prev where prev: "declare_symbol cur fn rt True = Inr prev"
    using a c0 rt c1 fn by (cases "declare_symbol cur fn rt True") simp_all
  obtain body where body: "subscript cs 2 = Inr body"
    using a c0 rt c1 fn prev by (cases "subscript cs 2") simp_all
  obtain inner where inner: "analyze_node (SymbolTable Map.empty (Some prev)) body = Inr inner"
    using a c0 rt c1 fn prev body
    by (cases "analyze_node (SymbolTable Map.empty (Some prev)) body") simp_all
  have "r = (case parent inner of Some p \<Rightarrow> p | None \<Rightarrow> prev)"
    using a c0 rt c1 fn prev body inner by simp
  with c0 rt c1 fn prev body inner show thesis
    by (rule that)
qed

lemmas walk_simps =
  analyze_node.simps analyze_program.simps analyze_function.simps
  analyze_expression_statement.simps default_analysis.simps

lemma analyze_parent:
  "\<forall>r. analyze_node cur node = Inr r \<longrightarrow> parent r = parent cur"
  "\<forall>r. analyze_program cur1 node1 = Inr r \<longrightarrow> parent r = parent cur1"
  "\<forall>r. analyze_function cur2 node2 = Inr r \<longrightarrow> parent r = parent cur2"
  "\<forall>r. analyze_expression_statement cur3 node3 = Inr r \<longrightarrow> parent r = parent cur3"
  "\<forall>r. default_analysis cur4 node4 = Inr r \<longrightarrow> parent r = parent cur4"
  "\<forall>r. analyze_children cur5 cs5 = Inr r \<longrightarrow> parent r = parent cur5"
proof (induction cur node and cur1 node1 and cur2 node2 and cur3 node3 and cur4 node4 and cur5 cs5
       rule: analyze_node_analyze_program_analyze_function_analyze_expression_statement_default_analysis_analyze_children.induct)
  case (1 cur nm cs)
  define k where "k = node_kind (ParseNode nm cs)"
  have unfold: "analyze_node cur (ParseNode nm cs) =
     (if k = ''Program'' then analyze_program cur (ParseNode nm cs)
      else if k = ''Function'' then analyze_function cur (ParseNode nm cs)
      else if k = ''VariableDeclaration'' then analyze_variable_declaration cur (ParseNode nm cs)
      else if k = ''FunctionCall'' then analyze_function_call cur (ParseNode nm cs)
      else if k = ''ExpressionStatement'' then analyze_expression_statement cur (ParseNode nm cs)
      else default_analysis cur (ParseNode nm cs))"
    by (simp only: analyze_node.simps Let_def k_def)
  show ?case
  proof (intro allI impI)
    fix r
    assume "analyze_node cur (ParseNode nm cs) = Inr r"
    with unfold have a:
      "(if k = ''Program'' then analyze_program cur (ParseNode nm cs)
        else if k = ''Function'' then analyze_function cur (ParseNode nm cs)
        else if k = ''VariableDeclaration'' then analyze_variable_declaration cur (ParseNode nm cs)
        else if k = ''FunctionCall'' then analyze_function_call cur (ParseNode nm cs)
        else if k = ''ExpressionStatement'' then analyze_expression_statement cur (ParseNode nm cs)
        else default_analysis cur (ParseNode nm cs)) = Inr r"
      by (simp only:)
    show "parent r = parent cur"
    proof (cases "k = ''Program''")
      case True
      from a True have "analyze_program cur (ParseNode nm cs) = Inr r"
        by (simp del: walk_simps)
      with "1.IH"(1) [OF k_def True] show ?thesis by blast
    next
      case n1: False
      show ?thesis
      proof (cases "k = ''Function''")
        case True
        from a n1 True have "analyze_function cur (ParseNode nm cs) = Inr r"
        by (simp del: walk_simps)
        with "1.IH"(2) [OF k_def n1 True] show ?thesis by blast
      next
        case n2: False
        show ?thesis
        proof (cases "k = ''VariableDeclaration''")
          case True
          from a n1 n2 True have "analyze_variable_declaration cur (ParseNode nm cs) = Inr r"
        by (simp del: walk_simps)
          then show ?thesis by (rule variable_declaration_parent)
        next
          case n3: False
          show ?thesis
          proof (cases "k = ''FunctionCall''")
            case True
            from a n1 n2 n3 True have "analyze_function_call cur (ParseNode nm cs) = Inr r"
        by (simp del: walk_simps)
            then have "r = cur" by (rule function_call_unchanged)
            then show ?thesis by simp
          next
            case n4: False
            show ?thesis
            proof (cases "k = ''ExpressionStatement''")
              case True
              from a n1 n2 n3 n4 True have "analyze_expression_statement cur (ParseNode nm cs) = Inr r"
        by (simp del: walk_simps)
              with "1.IH"(3) [OF k_def n1 n2 n3 n4 True] show ?thesis by blast
            next
              case n5: False
              from a n1 n2 n3 n4 n5 have "default_analysis cur (ParseNode nm cs) = Inr r"
        by (simp del: walk_simps)
              with "1.IH"(4) [OF k_def n1 n2 n3 n4 n5] show ?thesis by blast
            qed
          qed
        qed
      qed
    qed
  qed
next
  case (7 cur nm cs)
  show ?case
  proof (intro allI impI)
    fix r
    assume "analyze_function cur (ParseNode nm cs) = Inr r"
    then obtain c0 rt c1 fn prev body inner where
      s: "subscript cs 0 = Inr c0" "payload c0 = Inr rt" "subscript cs 1 = Inr c1"
         "payload c1 = Inr fn" "declare_symbol cur fn rt True = Inr prev"
         "subscript cs 2 = Inr body"
      and b: "analyze_node (SymbolTable Map.empty (Some prev)) body = Inr inner"
      and r: "r = (case parent inner of Some p \<Rightarrow> p | None \<Rightarrow> prev)"
      by (rule analyze_function_Inr)
    from "7.IH" [OF s] b have "parent inner = Some prev" by simp
    with r have "r = prev" by simp
    with declare_symbol_parent [OF s(5)] show "parent r = parent cur" by simp
  qed
next
  case (2 cur nm cs)
  then show ?case by simp
next
  case (3 cur nm cs)
  then show ?case by simp
next
  case (4 cur nm cs)
  then show ?case by simp
next
  case (5 cur)
  show ?case by simp
next
  case (6 cur child rest)
  show ?case
  proof (intro allI impI)
    fix r
    assume a: "analyze_children cur (child # rest) = Inr r"
    then obtain b where b: "analyze_node cur child = Inr b"
      by (cases "analyze_node cur child") simp_all
    with a have "analyze_children b rest = Inr r" by simp
    with "6.IH"(2) [OF b] have "parent r = parent b" by blast
    moreover from "6.IH"(1) b have "parent b = parent cur" by blast
    ultimately show "parent r = parent cur" by simp
  qed
qed


lemma lookup_through_child:
  "lookup p x = Inr info \<Longrightarrow> \<exists>info'. lookup (SymbolTable loc (Some p)) x = Inr info'"
  by (cases "loc x") simp_all

lemma lookup_after_declare:
  assumes "declare_symbol cur fn rt f = Inr prev" and "lookup cur x = Inr info"
  shows "\<exists>info'. lookup prev x = Inr info'"
  using assms by (cases cur) (auto split: option.splits if_splits)

lemma absent_after_declare:
  assumes "declare_symbol cur fn rt f = Inr prev" and "x \<noteq> fn"
    and "\<forall>m \<in> set (scopes cur). m x = None"
  shows "\<forall>m \<in> set (scopes prev). m x = None"
  using assms by (cases cur) (auto split: option.splits if_splits)

lemma label_payloads:
  "payload (ParseNode ''Type(int)'' cs) = Inr ''int''"
  "payload (ParseNode ''Identifier(main)'' cs) = Inr ''main''"
  "payload (ParseNode ''Identifier(x)'' cs) = Inr ''x''"
  "payload (ParseNode ''Identifier(printf)'' cs) = Inr ''printf''"
  "payload (ParseNode ''Number(5)'' cs) = Inr ''5''"
  by (simp_all add: payload_def subscript_def strip_def)

lemma SemanticAnalyzer_None:
  "SemanticAnalyzer None =
     Inr (SymbolTable
           [''printf'' \<mapsto> Symbol ''int'' True, ''puts'' \<mapsto> Symbol ''int'' True,
            ''getchar'' \<mapsto> Symbol ''int'' True, ''scanf'' \<mapsto> Symbol ''int'' True] None)"
  by (simp add: SemanticAnalyzer_def default_functions_def)

lemma analyze_function_main:
  "analyze_function
     (SymbolTable [''printf'' \<mapsto> Symbol ''int'' True, ''puts'' \<mapsto> Symbol ''int'' True,
            ''getchar'' \<mapsto> Symbol ''int'' True, ''scanf'' \<mapsto> Symbol ''int'' True] None)
     (ParseNode ''Function''
           [ParseNode ''Type(int)'' [], ParseNode ''Identifier(main)'' [],
            ParseNode ''DeclarationList''
             [ParseNode ''VariableDeclaration''
               [ParseNode ''Type(int)'' [], ParseNode ''Identifier(x)'' [],
                ParseNode ''Number(5)'' []],
              ParseNode ''ExpressionStatement''
               [ParseNode ''FunctionCall''
                 [ParseNode ''Identifier(printf)'' [],
                  ParseNode ''Identifier(x)'' []]]]]) =
    Inr (SymbolTable [''printf'' \<mapsto> Symbol ''int'' True, ''puts'' \<mapsto> Symbol ''int'' True,
            ''getchar'' \<mapsto> Symbol ''int'' True, ''scanf'' \<mapsto> Symbol ''int'' True,
            ''main'' \<mapsto> Symbol ''int'' True] None)"
  by (simp add: node_kind_plain label_payloads subscript_def
        analyze_variable_declaration_def analyze_function_call_def type_check_assignment_def
        startswith_def infer_number_type_def int_ok_5 is_compatible_type_iff)

lemma parse_main:
  "parse_program 20 (Parser (Lexer ''int main() { int x = 5; printf(x); }'') 0) =
    Some (Inr (ParseNode ''Program''
         [ParseNode ''Function''
           [ParseNode ''Type(int)'' [], ParseNode ''Identifier(main)'' [],
            ParseNode ''DeclarationList''
             [ParseNode ''VariableDeclaration''
               [ParseNode ''Type(int)'' [], ParseNode ''Identifier(x)'' [],
                ParseNode ''Number(5)'' []],
              ParseNode ''ExpressionStatement''
               [ParseNode ''FunctionCall''
                 [ParseNode ''Identifier(printf)'' [],
                  ParseNode ''Identifier(x)'' []]]]]]))"
  by code_simp

lemma parse_self_reference:
  "parse_program 20 (Parser (Lexer ''int x = x;'') 0) =
    Some (Inr (ParseNode ''Program''
         [ParseNode ''VariableDeclaration''
            [ParseNode ''Type(int)'' [], ParseNode ''Identifier(x)'' [],
             ParseNode ''Identifier(x)'' []]]))"
  by code_simp

section \<open>A larger bound gives the same parse\<close>

lemma and_then_mono:
  assumes "and_then m f = Some r"
    and "\<And>x. m = Some x \<Longrightarrow> m' = Some x"
    and "\<And>a p x. f a p = Some x \<Longrightarrow> f' a p = Some x"
  shows "and_then m' f' = Some r"
proof (cases m)
  case None
  with assms(1) show ?thesis by (simp add: and_then_def)
next
  case (Some x)
  with assms(2) have m': "m' = Some x" by simp
  show ?thesis
  proof (cases x)
    case (Inl e)
    with Some m' assms(1) show ?thesis by (simp add: and_then_def)
  next
    case (Inr ap)
    obtain a p where ap: "ap = (a, p)" by (cases ap)
    with Inr Some assms(1) have "f a p = Some r" by (simp add: and_then_def)
    then have "f' a p = Some r" by (rule assms(3))
    with Inr Some m' ap show ?thesis by (simp add: and_then_def)
  qed
qed

lemma expression_more_fuel:
  "(\<forall>p r. parse_expression n p = Some r \<longrightarrow> parse_expression (Suc n) p = Some r) \<and>
   (\<forall>p i r. parse_function_call n p i = Some r \<longrightarrow> parse_function_call (Suc n) p i = Some r) \<and>
   (\<forall>p r. parse_argument_list n p = Some r \<longrightarrow> parse_argument_list (Suc n) p = Some r) \<and>
   (\<forall>p a r. parse_argument_loop n p a = Some r \<longrightarrow> parse_argument_loop (Suc n) p a = Some r)"
proof (induction n)
  case 0
  show ?case by simp
next
  case (Suc n)
  then have e: "\<And>p r. parse_expression n p = Some r \<Longrightarrow> parse_expression (Suc n) p = Some r"
    and c: "\<And>p i r. parse_function_call n p i = Some r \<Longrightarrow> parse_function_call (Suc n) p i = Some r"
    and l: "\<And>p r. parse_argument_list n p = Some r \<Longrightarrow> parse_argument_list (Suc n) p = Some r"
    and w: "\<And>p a r. parse_argument_loop n p a = Some r \<Longrightarrow> parse_argument_loop (Suc n) p a = Some r"
    by blast+
  have 1: "parse_expression (Suc (Suc n)) p = Some r" if h: "parse_expression (Suc n) p = Some r" for p r
  proof (cases "current_token p")
    case None
    with h show ?thesis by simp
  next
    case (Some token)
    show ?thesis
    proof (cases "token_type token = ''NUMBER''")
      case True
      with h Some show ?thesis by simp
    next
      case n1: False
      show ?thesis
      proof (cases "token_type token = ''IDENTIFIER''")
        case True
        from h Some n1 True have
          "and_then (Some (consume p (Some ''IDENTIFIER'') None)) (\<lambda>t p1.
            if value_is p1 ''(''
            then parse_function_call n p1 (ParseNode (''Identifier('' @ token_value token @ '')'') [])
            else Some (Inr (ParseNode (''Identifier('' @ token_value token @ '')'') [], p1))) = Some r"
          by simp
        then have
          "and_then (Some (consume p (Some ''IDENTIFIER'') None)) (\<lambda>t p1.
            if value_is p1 ''(''
            then parse_function_call (Suc n) p1 (ParseNode (''Identifier('' @ token_value token @ '')'') [])
            else Some (Inr (ParseNode (''Identifier('' @ token_value token @ '')'') [], p1))) = Some r"
          by (rule and_then_mono) (auto dest: c split: if_splits)
        with Some n1 True show ?thesis by simp
      next
        case False
        with h Some n1 show ?thesis by simp
      qed
    qed
  qed
  have 2: "parse_function_call (Suc (Suc n)) p i = Some r" if h: "parse_function_call (Suc n) p i = Some r" for p i r
  proof -
    from h have
      "and_then (Some (consume p (Some ''DELIMITER'') (Some ''(''))) (\<lambda>t p1.
       and_then (parse_argument_list n p1) (\<lambda>args_node p2.
       and_then (Some (consume p2 (Some ''DELIMITER'') (Some '')''))) (\<lambda>t p3.
       Some (Inr (ParseNode ''FunctionCall'' ([i] @ args_node), p3))))) = Some r"
      by simp
    then have
      "and_then (Some (consume p (Some ''DELIMITER'') (Some ''(''))) (\<lambda>t p1.
       and_then (parse_argument_list (Suc n) p1) (\<lambda>args_node p2.
       and_then (Some (consume p2 (Some ''DELIMITER'') (Some '')''))) (\<lambda>t p3.
       Some (Inr (ParseNode ''FunctionCall'' ([i] @ args_node), p3))))) = Some r"
      apply (rule and_then_mono)
       apply assumption
      apply (erule and_then_mono)
       apply (erule l)
      apply assumption
      done
    then show ?thesis by simp
  qed
  have 3: "parse_argument_list (Suc (Suc n)) p = Some r" if h: "parse_argument_list (Suc n) p = Some r" for p r
  proof (cases "value_is_not p '')''")
    case True
    with h have "and_then (parse_expression n p) (\<lambda>e p1. parse_argument_loop n p1 [e]) = Some r"
      by simp
    then have "and_then (parse_expression (Suc n) p) (\<lambda>e p1. parse_argument_loop (Suc n) p1 [e]) = Some r"
      apply (rule and_then_mono)
       apply (erule e)
      apply (erule w)
      done
    with True show ?thesis by simp
  next
    case False
    with h show ?thesis by simp
  qed
  have 4: "parse_argument_loop (Suc (Suc n)) p a = Some r" if h: "parse_argument_loop (Suc n) p a = Some r" for p a r
  proof (cases "value_is p '',''")
    case True
    with h have
      "and_then (Some (consume p (Some ''DELIMITER'') (Some '',''))) (\<lambda>t p1.
        and_then (parse_expression n p1) (\<lambda>e p2.
        parse_argument_loop n p2 (a @ [e]))) = Some r"
      by simp
    then have
      "and_then (Some (consume p (Some ''DELIMITER'') (Some '',''))) (\<lambda>t p1.
        and_then (parse_expression (Suc n) p1) (\<lambda>e p2.
        parse_argument_loop (Suc n) p2 (a @ [e]))) = Some r"
      apply (rule and_then_mono)
       apply assumption
      apply (erule and_then_mono)
       apply (erule e)
      apply (erule w)
      done
    with True show ?thesis by simp
  next
    case False
    with h show ?thesis by simp
  qed
  from 1 2 3 4 show ?case by blast
qed

lemma if_mono:
  assumes "(if c then A else B) = Some y"
    and "c \<Longrightarrow> A = Some y \<Longrightarrow> A' = Some y"
    and "\<not> c \<Longrightarrow> B = Some y \<Longrightarrow> B' = Some y"
  shows "(if c then A' else B') = Some y"
  using assms by (cases c) simp_all

lemma parse_expression_Suc:
  "parse_expression n p = Some r \<Longrightarrow> parse_expression (Suc n) p = Some r"
  using expression_more_fuel [of n] by blast

lemma declaration_more_fuel:
  "(\<forall>p r. parse_declaration n p = Some r \<longrightarrow> parse_declaration (Suc n) p = Some r) \<and>
   (\<forall>p t i r. parse_function n p t i = Some r \<longrightarrow> parse_function (Suc n) p t i = Some r) \<and>
   (\<forall>p cs r. parse_declaration_list n p cs = Some r \<longrightarrow> parse_declaration_list (Suc n) p cs = Some r)"
proof (induction n)
  case 0
  show ?case by simp
next
  case (Suc n)
  then have d: "\<And>p r. parse_declaration n p = Some r \<Longrightarrow> parse_declaration (Suc n) p = Some r"
    and f: "\<And>p t i r. parse_function n p t i = Some r \<Longrightarrow> parse_function (Suc n) p t i = Some r"
    and l: "\<And>p cs r. parse_declaration_list n p cs = Some r \<Longrightarrow> parse_declaration_list (Suc n) p cs = Some r"
    by blast+
  note e = parse_expression_Suc
  have 1: "parse_declaration (Suc (Suc n)) p = Some r" if h: "parse_declaration (Suc n) p = Some r" for p r
  proof (cases "current_token p")
    case None
    with h show ?thesis by simp
  next
    case (Some token)
    show ?thesis
    proof (cases "token_type token = ''KEYWORD''")
      case True
      from h Some True have
        "and_then (Some (parse_type p)) (\<lambda>type_node p1.
            and_then (Some (consume p1 (Some ''IDENTIFIER'') None)) (\<lambda>id_token p2.
            if value_is p2 ''('' then
              parse_function n p2 type_node (ParseNode (''Identifier('' @ token_value id_token @ '')'') [])
            else if value_is p2 ''='' then
              and_then (Some (consume p2 (Some ''OPERATOR'') None)) (\<lambda>t p3.
              and_then (parse_expression n p3) (\<lambda>expr_node p4.
              and_then (Some (consume p4 (Some ''DELIMITER'') None)) (\<lambda>t p5.
              Some (Inr (ParseNode ''VariableDeclaration''
                [type_node, ParseNode (''Identifier('' @ token_value id_token @ '')'') [], expr_node], p5)))))
            else
              and_then (Some (consume p2 (Some ''DELIMITER'') None)) (\<lambda>t p3.
              Some (Inr (ParseNode ''VariableDeclaration''
                [type_node, ParseNode (''Identifier('' @ token_value id_token @ '')'') []], p3))))) = Some r"
        by simp
      then have
        "and_then (Some (parse_type p)) (\<lambda>type_node p1.
            and_then (Some (consume p1 (Some ''IDENTIFIER'') None)) (\<lambda>id_token p2.
            if value_is p2 ''('' then
              parse_function (Suc n) p2 type_node (ParseNode (''Identifier('' @ token_value id_token @ '')'') [])
            else if value_is p2 ''='' then
              and_then (Some (consume p2 (Some ''OPERATOR'') None)) (\<lambda>t p3.
              and_then (parse_expression (Suc n) p3) (\<lambda>expr_node p4.
              and_then (Some (consume p4 (Some ''DELIMITER'') None)) (\<lambda>t p5.
              Some (Inr (ParseNode ''VariableDeclaration''
                [type_node, ParseNode (''Identifier('' @ token_value id_token @ '')'') [], expr_node], p5)))))
            else
              and_then (Some (consume p2 (Some ''DELIMITER'') None)) (\<lambda>t p3.
              Some (Inr (ParseNode ''VariableDeclaration''
                [type_node, ParseNode (''Identifier('' @ token_value id_token @ '')'') []], p3))))) = Some r"
        apply (rule and_then_mono)
         apply assumption
        apply (erule and_then_mono)
         apply assumption
        apply (erule if_mono)
         apply (erule f)
        apply (erule if_mono)
         apply (erule and_then_mono)
          apply assumption
         apply (erule and_then_mono)
          apply (erule e)
         apply assumption
        apply assumption
        done
      with Some True show ?thesis by simp
    next
      case False
      with h Some have
        "and_then (parse_expression n p) (\<lambda>expr_node p1.
            and_then (Some (consume p1 (Some ''DELIMITER'') None)) (\<lambda>t p2.
            Some (Inr (ParseNode ''ExpressionStatement'' [expr_node], p2)))) = Some r"
        by simp
      then have
        "and_then (parse_expression (Suc n) p) (\<lambda>expr_node p1.
            and_then (Some (consume p1 (Some ''DELIMITER'') None)) (\<lambda>t p2.
            Some (Inr (ParseNode ''ExpressionStatement'' [expr_node], p2)))) = Some r"
        apply (rule and_then_mono)
         apply (erule e)
        apply assumption
        done
      with Some False show ?thesis by simp
    qed
  qed
  have 2: "parse_function (Suc (Suc n)) p t i = Some r" if h: "parse_function (Suc n) p t i = Some r" for p t i r
  proof -
    from h have
      "and_then (Some (consume p (Some ''DELIMITER'') (Some ''(''))) (\<lambda>t' p1.
       and_then (Some (consume p1 (Some ''DELIMITER'') (Some '')''))) (\<lambda>t' p2.
       and_then (Some (consume p2 (Some ''DELIMITER'') (Some ''{''))) (\<lambda>t' p3.
       and_then (parse_declaration_list n p3 []) (\<lambda>body_node p4.
       and_then (Some (consume p4 (Some ''DELIMITER'') (Some ''}''))) (\<lambda>t' p5.
       Some (Inr (ParseNode ''Function'' [t, i, body_node], p5))))))) = Some r"
      by simp
    then have
      "and_then (Some (consume p (Some ''DELIMITER'') (Some ''(''))) (\<lambda>t' p1.
       and_then (Some (consume p1 (Some ''DELIMITER'') (Some '')''))) (\<lambda>t' p2.
       and_then (Some (consume p2 (Some ''DELIMITER'') (Some ''{''))) (\<lambda>t' p3.
       and_then (parse_declaration_list (Suc n) p3 []) (\<lambda>body_node p4.
       and_then (Some (consume p4 (Some ''DELIMITER'') (Some ''}''))) (\<lambda>t' p5.
       Some (Inr (ParseNode ''Function'' [t, i, body_node], p5))))))) = Some r"
      apply (rule and_then_mono)
       apply assumption
      apply (erule and_then_mono)
       apply assumption
      apply (erule and_then_mono)
       apply assumption
      apply (erule and_then_mono)
       apply (erule l)
      apply assumption
      done
    then show ?thesis by simp
  qed
  have 3: "parse_declaration_list (Suc (Suc n)) p cs = Some r" if h: "parse_declaration_list (Suc n) p cs = Some r" for p cs r
  proof (cases "value_is_not p ''}''")
    case True
    with h have "and_then (parse_declaration n p) (\<lambda>d p1. parse_declaration_list n p1 (cs @ [d])) = Some r"
      by simp
    then have "and_then (parse_declaration (Suc n) p) (\<lambda>d p1. parse_declaration_list (Suc n) p1 (cs @ [d])) = Some r"
      apply (rule and_then_mono)
       apply (erule d)
      apply (erule l)
      done
    with True show ?thesis by simp
  next
    case False
    with h show ?thesis by simp
  qed
  from 1 2 3 show ?case by blast
qed

lemma parse_declaration_Suc:
  "parse_declaration n p = Some r \<Longrightarrow> parse_declaration (Suc n) p = Some r"
  using declaration_more_fuel [of n] by blast

lemma parse_program_loop_Suc:
  "parse_program_loop n p cs = Some r \<Longrightarrow> parse_program_loop (Suc n) p cs = Some r"
proof (induction n arbitrary: p cs r)
  case 0
  then show ?case by simp
next
  case (Suc n)
  show ?case
  proof (cases "index p < length (tokens p)")
    case True
    with Suc.prems have
      "and_then (parse_declaration n p) (\<lambda>d p1. parse_program_loop n p1 (cs @ [d])) = Some r"
      by simp
    then have
      "and_then (parse_declaration (Suc n) p) (\<lambda>d p1. parse_program_loop (Suc n) p1 (cs @ [d])) = Some r"
      apply (rule and_then_mono)
       apply (erule parse_declaration_Suc)
      apply (erule Suc.IH)
      done
    with True show ?thesis by simp
  next
    case False
    with Suc.prems show ?thesis by simp
  qed
qed

lemma parse_program_more_fuel:
  "parse_program n p = Some r \<Longrightarrow> parse_program (n + k) p = Some r"
proof (induction k)
  case 0
  then show ?case by simp
next
  case (Suc k)
  then have "parse_program (n + k) p = Some r" by simp
  then obtain x where x: "parse_program_loop (n + k) p [] = Some x"
    by (auto simp: parse_program_def split: option.splits)
  from parse_program_loop_Suc [OF x] have "parse_program_loop (n + Suc k) p [] = Some x" by simp
  with x \<open>parse_program (n + k) p = Some r\<close> show ?case
    by (simp add: parse_program_def)
qed

lemma run_more_fuel:
  "run n pf src = Some r \<Longrightarrow> run (n + k) pf src = Some r"
  by (auto simp: run_def parse_program_more_fuel split: sum.splits option.splits)

section \<open>The example sources\<close>

lemma run_main_20:
  "run 20 None ''int main() { int x = 5; printf(x); }'' =
     Some (Inr (SymbolTable
             [''printf'' \<mapsto> Symbol ''int'' True, ''puts'' \<mapsto> Symbol ''int'' True,
              ''getchar'' \<mapsto> Symbol ''int'' True, ''scanf'' \<mapsto> Symbol ''int'' True,
              ''main'' \<mapsto> Symbol ''int'' True] None))"
  by (simp add: run_def SemanticAnalyzer_None parse_main analyze_def node_kind_plain
        analyze_function_main del: walk_simps)
     (simp add: node_kind_plain analyze_function_main del: analyze_function.simps)

lemma run_self_reference_20:
  "run 20 None ''int x = x;'' = Some (Inl (Semantic (AssignmentError (UndeclaredSymbol ''x''))))"
  by (simp add: run_def SemanticAnalyzer_None parse_self_reference analyze_def node_kind_plain
          label_payloads subscript_def analyze_variable_declaration_def
          type_check_assignment_def startswith_def)

lemma parse_end_of_input_20:
  "parse_program 20 (Parser (Lexer ''int x ='') 0) = Some (Inl AttributeError)"
  by code_simp

lemma parse_any_delimiter_20:
  "parse_program 20 (Parser (Lexer ''int x )'') 0) =
     Some (Inr (ParseNode ''Program''
       [ParseNode ''VariableDeclaration'' [ParseNode ''Type(int)'' [], ParseNode ''Identifier(x)'' []]]))"
  by code_simp

lemma label_payloads2:
  "payload (ParseNode ''Type(double)'' cs) = Inr ''double''"
  "payload (ParseNode ''Identifier(y)'' cs) = Inr ''y''"
  "payload (ParseNode ''Number(1e5)'' cs) = Inr ''1e5''"
  by (simp_all add: payload_def subscript_def strip_def)

lemma float_1e5: "\<not> int_ok ''1e5'' \<and> float_ok ''1e5''"
  by code_simp

lemma parse_int_x_5:
  "parse_program 20 (Parser (Lexer ''int x = 5;'') 0) =
    Some (Inr (ParseNode ''Program''
         [ParseNode ''VariableDeclaration''
            [ParseNode ''Type(int)'' [], ParseNode ''Identifier(x)'' [], ParseNode ''Number(5)'' []]]))"
  by code_simp

lemma parse_double_y_5:
  "parse_program 20 (Parser (Lexer ''double y = 5;'') 0) =
    Some (Inr (ParseNode ''Program''
         [ParseNode ''VariableDeclaration''
            [ParseNode ''Type(double)'' [], ParseNode ''Identifier(y)'' [], ParseNode ''Number(5)'' []]]))"
  by code_simp

lemma parse_int_x_1e5:
  "parse_program 20 (Parser (Lexer ''int x = 1e5;'') 0) =
    Some (Inr (ParseNode ''Program''
         [ParseNode ''VariableDeclaration''
            [ParseNode ''Type(int)'' [], ParseNode ''Identifier(x)'' [], ParseNode ''Number(1e5)'' []]]))"
  by code_simp

lemma run_int_x_5:
  "run 20 None ''int x = 5;'' =
     Some (Inr (SymbolTable
             [''printf'' \<mapsto> Symbol ''int'' True, ''puts'' \<mapsto> Symbol ''int'' True,
              ''getchar'' \<mapsto> Symbol ''int'' True, ''scanf'' \<mapsto> Symbol ''int'' True,
              ''x'' \<mapsto> Symbol ''int'' False] None))"
  by (simp add: run_def SemanticAnalyzer_None parse_int_x_5 analyze_def node_kind_plain
          label_payloads subscript_def analyze_variable_declaration_def
          type_check_assignment_def startswith_def infer_number_type_def int_ok_5
          is_compatible_type_iff)

lemma run_double_y_5:
  "run 20 None ''double y = 5;'' =
     Some (Inr (SymbolTable
             [''printf'' \<mapsto> Symbol ''int'' True, ''puts'' \<mapsto> Symbol ''int'' True,
              ''getchar'' \<mapsto> Symbol ''int'' True, ''scanf'' \<mapsto> Symbol ''int'' True,
              ''y'' \<mapsto> Symbol ''double'' False] None))"
  by (simp add: run_def SemanticAnalyzer_None parse_double_y_5 analyze_def node_kind_plain
          label_payloads label_payloads2 subscript_def analyze_variable_declaration_def
          type_check_assignment_def startswith_def infer_number_type_def int_ok_5
          is_compatible_type_iff)

lemma run_int_x_1e5:
  "run 20 None ''int x = 1e5;'' = Some (Inl (Semantic (TypeMismatch ''double'' ''int'')))"
  by (simp add: run_def SemanticAnalyzer_None parse_int_x_1e5 analyze_def node_kind_plain
          label_payloads label_payloads2 subscript_def analyze_variable_declaration_def
          type_check_assignment_def startswith_def infer_number_type_def float_1e5
          is_compatible_type_iff)

lemma lookup_other_after_declare:
  assumes "declare_symbol cur fn rt f = Inr prev" and "x \<noteq> fn"
  shows "lookup prev x = lookup cur x"
  using assms by (cases cur) (auto split: option.splits if_splits)

section \<open>Function scopes\<close>

text \<open>
  C8. When \<open>_analyze_function\<close> returns, the current table is the table that was current
  before, with the function's name added to it and nothing else changed: the enclosing
  chain is as it was, and the scope of the body is gone, so a name other than the
  function's that resolved nowhere before resolves nowhere after, whatever the body
  declared. The body is walked in a fresh table whose parent is that table, and is left
  in a table with the same parent; from every table with that parent, the function's own
  name and every name that resolved in the enclosing chain resolve.
\<close>

theorem function_scope_discarded:
  assumes "analyze_function cur (ParseNode nm cs) = Inr cur'"
  shows "\<exists>c0 c1 body rt fn inner.
           subscript cs 0 = Inr c0 \<and> payload c0 = Inr rt \<and>
           subscript cs 1 = Inr c1 \<and> payload c1 = Inr fn \<and>
           subscript cs 2 = Inr body \<and>
           cur' = SymbolTable ((symbols cur)(fn \<mapsto> Symbol rt True)) (parent cur) \<and>
           analyze_node (SymbolTable Map.empty (Some cur')) body = Inr inner \<and>
           parent inner = Some cur' \<and>
           (\<forall>loc x info. lookup cur x = Inr info \<longrightarrow>
              (\<exists>info'. lookup (SymbolTable loc (Some cur')) x = Inr info')) \<and>
           (\<forall>loc. \<exists>info'. lookup (SymbolTable loc (Some cur')) fn = Inr info') \<and>
           (\<forall>x. x \<noteq> fn \<longrightarrow> lookup cur' x = lookup cur x) \<and>
           (\<forall>x. x \<noteq> fn \<longrightarrow> (\<forall>m \<in> set (scopes cur). m x = None) \<longrightarrow>
              (\<forall>m \<in> set (scopes cur'). m x = None))"
proof -
  from assms obtain c0 rt c1 fn prev body inner where
    s: "subscript cs 0 = Inr c0" "payload c0 = Inr rt" "subscript cs 1 = Inr c1"
       "payload c1 = Inr fn" "subscript cs 2 = Inr body"
    and d: "declare_symbol cur fn rt True = Inr prev"
    and b: "analyze_node (SymbolTable Map.empty (Some prev)) body = Inr inner"
    and r: "cur' = (case parent inner of Some p \<Rightarrow> p | None \<Rightarrow> prev)"
    by (rule analyze_function_Inr)
  from analyze_parent(1) b have p: "parent inner = Some prev" by fastforce
  with r have eq: "cur' = prev" by simp
  from d have shape: "prev = SymbolTable ((symbols cur)(fn \<mapsto> Symbol rt True)) (parent cur)"
    by (simp add: declare_symbol_eq split: if_splits)
  have vis: "\<forall>loc x info. lookup cur x = Inr info \<longrightarrow>
              (\<exists>info'. lookup (SymbolTable loc (Some prev)) x = Inr info')"
    using lookup_after_declare [OF d] lookup_through_child by blast
  have own: "\<forall>loc. \<exists>info'. lookup (SymbolTable loc (Some prev)) fn = Inr info'"
    using lookup_declared [OF d] lookup_through_child by blast
  have gone: "\<forall>x. x \<noteq> fn \<longrightarrow> (\<forall>m \<in> set (scopes cur). m x = None) \<longrightarrow>
              (\<forall>m \<in> set (scopes prev). m x = None)"
    using absent_after_declare [OF d] by blast
  have same: "\<forall>x. x \<noteq> fn \<longrightarrow> lookup prev x = lookup cur x"
    using lookup_other_after_declare [OF d] by blast
  from s shape b p vis own same gone show ?thesis
    unfolding eq by (intro exI conjI)
qed

theorem function_scope_discarded_witness:
  "analyze_function
     (SymbolTable [''printf'' \<mapsto> Symbol ''int'' True, ''puts'' \<mapsto> Symbol ''int'' True,
          ''getchar'' \<mapsto> Symbol ''int'' True, ''scanf'' \<mapsto> Symbol ''int'' True] None)
     (ParseNode ''Function''
       [ParseNode ''Type(int)'' [], ParseNode ''Identifier(main)'' [],
        ParseNode ''DeclarationList''
         [ParseNode ''VariableDeclaration''
           [ParseNode ''Type(int)'' [], ParseNode ''Identifier(x)'' [],
            ParseNode ''Number(5)'' []],
          ParseNode ''ExpressionStatement''
           [ParseNode ''FunctionCall''
             [ParseNode ''Identifier(printf)'' [],
              ParseNode ''Identifier(x)'' []]]]]) =
     Inr (SymbolTable [''printf'' \<mapsto> Symbol ''int'' True, ''puts'' \<mapsto> Symbol ''int'' True,
          ''getchar'' \<mapsto> Symbol ''int'' True, ''scanf'' \<mapsto> Symbol ''int'' True,
          ''main'' \<mapsto> Symbol ''int'' True] None)
   \<and> lookup (SymbolTable [''printf'' \<mapsto> Symbol ''int'' True, ''puts'' \<mapsto> Symbol ''int'' True,
          ''getchar'' \<mapsto> Symbol ''int'' True, ''scanf'' \<mapsto> Symbol ''int'' True] None) ''x'' = Inl (Semantic (UndeclaredSymbol ''x''))
   \<and> lookup (SymbolTable [''printf'' \<mapsto> Symbol ''int'' True, ''puts'' \<mapsto> Symbol ''int'' True,
          ''getchar'' \<mapsto> Symbol ''int'' True, ''scanf'' \<mapsto> Symbol ''int'' True,
          ''main'' \<mapsto> Symbol ''int'' True] None) ''x'' = Inl (Semantic (UndeclaredSymbol ''x''))"
proof -
  have h: "analyze_function
     (SymbolTable [''printf'' \<mapsto> Symbol ''int'' True, ''puts'' \<mapsto> Symbol ''int'' True,
          ''getchar'' \<mapsto> Symbol ''int'' True, ''scanf'' \<mapsto> Symbol ''int'' True] None)
     (ParseNode ''Function''
       [ParseNode ''Type(int)'' [], ParseNode ''Identifier(main)'' [],
        ParseNode ''DeclarationList''
         [ParseNode ''VariableDeclaration''
           [ParseNode ''Type(int)'' [], ParseNode ''Identifier(x)'' [],
            ParseNode ''Number(5)'' []],
          ParseNode ''ExpressionStatement''
           [ParseNode ''FunctionCall''
             [ParseNode ''Identifier(printf)'' [],
              ParseNode ''Identifier(x)'' []]]]]) =
     Inr (SymbolTable [''printf'' \<mapsto> Symbol ''int'' True, ''puts'' \<mapsto> Symbol ''int'' True,
          ''getchar'' \<mapsto> Symbol ''int'' True, ''scanf'' \<mapsto> Symbol ''int'' True,
          ''main'' \<mapsto> Symbol ''int'' True] None)"
    by (rule analyze_function_main)
  from function_scope_discarded [OF h] obtain c0 c1 body rt fn inner where
    c: "subscript
       [ParseNode ''Type(int)'' [], ParseNode ''Identifier(main)'' [],
        ParseNode ''DeclarationList''
         [ParseNode ''VariableDeclaration''
           [ParseNode ''Type(int)'' [], ParseNode ''Identifier(x)'' [],
            ParseNode ''Number(5)'' []],
          ParseNode ''ExpressionStatement''
           [ParseNode ''FunctionCall''
             [ParseNode ''Identifier(printf)'' [],
              ParseNode ''Identifier(x)'' []]]]] 1 = Inr c1" "payload c1 = Inr fn"
    and g: "\<forall>x. x \<noteq> fn \<longrightarrow>
       (\<forall>m \<in> set (scopes (SymbolTable [''printf'' \<mapsto> Symbol ''int'' True, ''puts'' \<mapsto> Symbol ''int'' True,
          ''getchar'' \<mapsto> Symbol ''int'' True, ''scanf'' \<mapsto> Symbol ''int'' True] None)). m x = None) \<longrightarrow>
       (\<forall>m \<in> set (scopes (SymbolTable [''printf'' \<mapsto> Symbol ''int'' True, ''puts'' \<mapsto> Symbol ''int'' True,
          ''getchar'' \<mapsto> Symbol ''int'' True, ''scanf'' \<mapsto> Symbol ''int'' True,
          ''main'' \<mapsto> Symbol ''int'' True] None)). m x = None)"
    by (elim exE conjE) (rule that)
  from c have "fn = ''main''"
    by (auto simp: subscript_def label_payloads)
  then have "''x'' \<noteq> fn" by simp
  moreover have "\<forall>m \<in> set (scopes (SymbolTable [''printf'' \<mapsto> Symbol ''int'' True, ''puts'' \<mapsto> Symbol ''int'' True,
          ''getchar'' \<mapsto> Symbol ''int'' True, ''scanf'' \<mapsto> Symbol ''int'' True] None)). m ''x'' = None"
    by simp
  ultimately have "\<forall>m \<in> set (scopes (SymbolTable [''printf'' \<mapsto> Symbol ''int'' True, ''puts'' \<mapsto> Symbol ''int'' True,
          ''getchar'' \<mapsto> Symbol ''int'' True, ''scanf'' \<mapsto> Symbol ''int'' True,
          ''main'' \<mapsto> Symbol ''int'' True] None)). m ''x'' = None"
    using g by (elim allE impE) assumption+
  then have "lookup (SymbolTable [''printf'' \<mapsto> Symbol ''int'' True, ''puts'' \<mapsto> Symbol ''int'' True,
          ''getchar'' \<mapsto> Symbol ''int'' True, ''scanf'' \<mapsto> Symbol ''int'' True,
          ''main'' \<mapsto> Symbol ''int'' True] None) ''x'' = Inl (Semantic (UndeclaredSymbol ''x''))"
    by (simp only: lookup_absent)
  moreover have "lookup (SymbolTable [''printf'' \<mapsto> Symbol ''int'' True, ''puts'' \<mapsto> Symbol ''int'' True,
          ''getchar'' \<mapsto> Symbol ''int'' True, ''scanf'' \<mapsto> Symbol ''int'' True] None) ''x'' = Inl (Semantic (UndeclaredSymbol ''x''))"
    by simp
  ultimately show ?thesis using h by (intro conjI)
qed

section \<open>Initializers\<close>

text \<open>
  C3. The initializer of a declaration is checked against the table as it is before the
  declaration: the analysis of a \<open>VariableDeclaration\<close> node with an initializer is the
  check of the initializer in the current table and, only when that succeeds, the
  declaration. So a declaration whose initializer is the declared identifier itself,
  with that name in no scope of the chain, fails with the undeclared-symbol error under
  the prefix of the assignment handler, and so does the source text \<open>int x = x;\<close>.
\<close>

theorem initializer_checked_before_declaration:
  "(payload c0 = Inr T \<longrightarrow> payload c1 = Inr x \<longrightarrow>
      analyze_node cur (ParseNode ''VariableDeclaration'' (c0 # c1 # init # rest)) =
        (case type_check_assignment cur T init of
           Inl e \<Rightarrow> Inl e
         | Inr u \<Rightarrow> declare_symbol cur x T False))
   \<and> (plain T \<longrightarrow> plain y \<longrightarrow> (\<forall>m \<in> set (scopes cur). m y = None) \<longrightarrow>
        analyze_node cur (ParseNode ''VariableDeclaration''
          [Type_node T, Identifier_node y, Identifier_node y]) =
        Inl (Semantic (AssignmentError (UndeclaredSymbol y))))
   \<and> run (20 + k) None ''int x = x;'' =
       Some (Inl (Semantic (AssignmentError (UndeclaredSymbol ''x''))))"
proof -
  have a: "payload c0 = Inr T \<longrightarrow> payload c1 = Inr x \<longrightarrow>
      analyze_node cur (ParseNode ''VariableDeclaration'' (c0 # c1 # init # rest)) =
        (case type_check_assignment cur T init of
           Inl e \<Rightarrow> Inl e
         | Inr u \<Rightarrow> declare_symbol cur x T False)"
    by (simp add: analyze_node_VariableDeclaration variable_declaration_init del: walk_simps)
  have self: "\<And>tab t v. payload (Identifier_node v) = Inr v \<Longrightarrow>
      \<forall>m \<in> set (scopes tab). m v = None \<Longrightarrow>
      type_check_assignment tab t (Identifier_node v) = Inl (Semantic (AssignmentError (UndeclaredSymbol v)))"
    by (simp add: type_check_assignment_def startswith_Identifier_node lookup_absent)
  have b: "plain T \<longrightarrow> plain y \<longrightarrow> (\<forall>m \<in> set (scopes cur). m y = None) \<longrightarrow>
        analyze_node cur (ParseNode ''VariableDeclaration''
          [Type_node T, Identifier_node y, Identifier_node y]) =
        Inl (Semantic (AssignmentError (UndeclaredSymbol y)))"
    by (simp add: analyze_node_VariableDeclaration variable_declaration_init
          payload_Type_node payload_Identifier_node self del: walk_simps)
  have c: "run (20 + k) None ''int x = x;'' =
       Some (Inl (Semantic (AssignmentError (UndeclaredSymbol ''x''))))"
    by (rule run_more_fuel [OF run_self_reference_20])
  from a b c show ?thesis by (intro conjI)
qed

theorem initializer_checked_before_declaration_witness:
  "payload (Type_node ''int'') = Inr ''int'' \<and> payload (Identifier_node ''x'') = Inr ''x'' \<and>
   plain ''int'' \<and> plain ''x'' \<and>
   lookup (SymbolTable Map.empty None) ''x'' = Inl (Semantic (UndeclaredSymbol ''x'')) \<and>
   analyze_node (SymbolTable Map.empty None)
     (ParseNode ''VariableDeclaration'' [Type_node ''int'', Identifier_node ''x'', Identifier_node ''x'']) =
     (case type_check_assignment (SymbolTable Map.empty None) ''int'' (Identifier_node ''x'') of
        Inl e \<Rightarrow> Inl e
      | Inr u \<Rightarrow> declare_symbol (SymbolTable Map.empty None) ''x'' ''int'' False) \<and>
   analyze_node (SymbolTable Map.empty None)
     (ParseNode ''VariableDeclaration'' [Type_node ''int'', Identifier_node ''x'', Identifier_node ''x'']) =
     Inl (Semantic (AssignmentError (UndeclaredSymbol ''x'')))"
proof -
  have p: "payload (Type_node ''int'') = Inr ''int''" "payload (Identifier_node ''x'') = Inr ''x''"
    "plain ''int''" "plain ''x''"
    by (simp_all add: payload_Type_node payload_Identifier_node plain_literals)
  have s: "\<forall>m \<in> set (scopes (SymbolTable Map.empty None)). m ''x'' = None"
    by simp
  have l: "lookup (SymbolTable Map.empty None) ''x'' = Inl (Semantic (UndeclaredSymbol ''x''))"
    by simp
  from p s l initializer_checked_before_declaration [where T = "''int''" and y = "''x''"
      and x = "''x''" and cur = "SymbolTable Map.empty None" and ?c0.0 = "Type_node ''int''"
      and ?c1.0 = "Identifier_node ''x''" and init = "Identifier_node ''x''" and rest = "[]"]
  show ?thesis by blast
qed

section \<open>The example program\<close>

text \<open>
  C1. For the source text \<open>int main() { int x = 5; printf(x); }\<close> the lexer, the parser
  (with any bound from 20 on)
  and the analyzer with the default predefined functions succeed; the global table
  returned holds the four predefined functions and \<open>main\<close>, a function of type \<open>int\<close>, and
  does not hold \<open>x\<close>.
\<close>

theorem example_program_analysis:
  "\<exists>g. run (20 + k) None ''int main() { int x = 5; printf(x); }'' = Some (Inr g) \<and>
       g = SymbolTable
             [''printf'' \<mapsto> Symbol ''int'' True, ''puts'' \<mapsto> Symbol ''int'' True,
              ''getchar'' \<mapsto> Symbol ''int'' True, ''scanf'' \<mapsto> Symbol ''int'' True,
              ''main'' \<mapsto> Symbol ''int'' True] None \<and>
       symbols g ''main'' = Some (Symbol ''int'' True) \<and>
       symbols g ''printf'' = Some (Symbol ''int'' True) \<and>
       symbols g ''x'' = None"
  using run_more_fuel [OF run_main_20, of k] by simp

section \<open>The parser at the end of the input\<close>

text \<open>
  C4. After the \<open>=\<close> of a declaration \<open>parse_expression\<close> reads the type of the current
  token without asking whether there is one: at the end of the input the failure is the
  interpreter's \<open>AttributeError\<close>, not the parser's exception for an unexpected end of
  input. The delimiter that ends a declaration is checked for its kind only, so a
  closing parenthesis in the place of the semicolon is accepted.
\<close>

theorem parse_expression_end_of_input:
  "parse_program (20 + k) (Parser (Lexer ''int x ='') 0) = Some (Inl AttributeError) \<and>
   parse_program (20 + k) (Parser (Lexer ''int x )'') 0) =
     Some (Inr (ParseNode ''Program''
       [ParseNode ''VariableDeclaration'' [ParseNode ''Type(int)'' [], ParseNode ''Identifier(x)'' []]]))"
  using parse_program_more_fuel [OF parse_end_of_input_20, of k]
    parse_program_more_fuel [OF parse_any_delimiter_20, of k]
  by (rule conjI)

section \<open>Symbol table properties\<close>

text \<open>
  C6. \<open>declare\<close> fails, with the error for a name already declared, exactly when the
  name is a key of the table's own dictionary; the parent and the types play no part.
  Otherwise the dictionary gets the entry and the parent stays. In a fresh scope every
  name can be declared, whatever the enclosing scope \<open>p\<close> holds.
\<close>

theorem declare_duplicate_iff_own_scope:
  "declare_symbol (SymbolTable syms par) nm ty f =
     (if nm \<in> dom syms then Inl (Semantic (AlreadyDeclared nm))
      else Inr (SymbolTable (syms(nm \<mapsto> Symbol ty f)) par))
   \<and> declare_symbol (SymbolTable Map.empty (Some p)) nm ty f =
       Inr (SymbolTable [nm \<mapsto> Symbol ty f] (Some p))"
  by (auto split: option.splits)

text \<open>
  C7. \<open>lookup\<close> returns the entry of the first dictionary of the chain, innermost
  first, that has the name, and fails with the undeclared-symbol error when none has.
  After the analysis of a declaration \<open>T id;\<close> the lookup of \<open>id\<close> returns the entry
  with type \<open>T\<close> that is no function.
\<close>

theorem lookup_innermost_scope:
  "lookup tab nm =
     (case find (\<lambda>m. m nm \<noteq> None) (scopes tab) of
        None \<Rightarrow> Inl (Semantic (UndeclaredSymbol nm))
      | Some m \<Rightarrow> Inr (the (m nm)))
   \<and> (plain T \<longrightarrow> plain ident \<longrightarrow>
        analyze_node cur (ParseNode ''VariableDeclaration'' [Type_node T, Identifier_node ident]) = Inr cur' \<longrightarrow>
        lookup cur' ident = Inr (Symbol T False))"
  using lookup_scopes [of tab nm]
  by (auto simp: analyze_node_VariableDeclaration variable_declaration_plain
        payload_Type_node payload_Identifier_node lookup_declared simp del: analyze_node.simps)

theorem lookup_innermost_scope_witness:
  "plain ''int'' \<and> plain ''x'' \<and>
   analyze_node (SymbolTable Map.empty None)
     (ParseNode ''VariableDeclaration'' [Type_node ''int'', Identifier_node ''x'']) =
     Inr (SymbolTable [''x'' \<mapsto> Symbol ''int'' False] None) \<and>
   lookup (SymbolTable [''x'' \<mapsto> Symbol ''int'' False] None) ''x'' = Inr (Symbol ''int'' False)"
proof -
  have p: "plain ''int''" "plain ''x''"
    by (simp_all add: plain_def)
  have a: "analyze_node (SymbolTable Map.empty None)
     (ParseNode ''VariableDeclaration'' [Type_node ''int'', Identifier_node ''x'']) =
     Inr (SymbolTable [''x'' \<mapsto> Symbol ''int'' False] None)"
    by (simp add: analyze_node_VariableDeclaration variable_declaration_plain
          payload_Type_node payload_Identifier_node p del: analyze_node.simps)
  from p a lookup_innermost_scope [where T = "''int''" and ident = "''x''"
      and cur = "SymbolTable Map.empty None"
      and cur' = "SymbolTable [''x'' \<mapsto> Symbol ''int'' False] None"]
  show ?thesis by blast
qed

section \<open>Type compatibility\<close>

text \<open>
  C2. The compatibility of a declared type with a value type is the relation of four
  rows: \<open>int\<close> takes \<open>int\<close>; \<open>float\<close> takes \<open>int\<close> and \<open>float\<close>; \<open>double\<close> takes \<open>int\<close>,
  \<open>float\<close> and \<open>double\<close>; \<open>char\<close> takes \<open>char\<close>. The check of a number initializer, and of
  an identifier initializer that is declared, succeeds when the pair is in the relation
  and fails with the type mismatch otherwise. \<open>int x = 5\<close> and \<open>double y = 5\<close> go on to
  the declaration; an \<open>int\<close> with the initializer \<open>5.0\<close> fails with the mismatch of
  \<open>double\<close> to \<open>int\<close>.
\<close>

theorem type_compatibility_relation:
  "(is_compatible_type t1 t2 \<longleftrightarrow>
     (t1 = ''int'' \<and> t2 = ''int'') \<or>
     (t1 = ''float'' \<and> (t2 = ''int'' \<or> t2 = ''float'')) \<or>
     (t1 = ''double'' \<and> (t2 = ''int'' \<or> t2 = ''float'' \<or> t2 = ''double'')) \<or>
     (t1 = ''char'' \<and> t2 = ''char''))
   \<and> (startswith (name v) ''Number'' \<longrightarrow> infer_number_type v = Inr vt \<longrightarrow>
        type_check_assignment cur t1 v =
          (if is_compatible_type t1 vt then Inr () else Inl (Semantic (TypeMismatch vt t1))))
   \<and> (\<not> startswith (name w) ''Number'' \<longrightarrow> startswith (name w) ''Identifier'' \<longrightarrow>
        payload w = Inr x \<longrightarrow> lookup cur x = Inr info \<longrightarrow>
        type_check_assignment cur t1 w =
          (if is_compatible_type t1 (type info) then Inr ()
           else Inl (Semantic (AssignmentError (TypeMismatch (type info) t1)))))
   \<and> analyze_node cur (ParseNode ''VariableDeclaration''
         [Type_node ''int'', Identifier_node ''x'', Number_node ''5'']) =
       declare_symbol cur ''x'' ''int'' False
   \<and> analyze_node cur (ParseNode ''VariableDeclaration''
         [Type_node ''int'', Identifier_node ''x'', Number_node ''5.0'']) =
       Inl (Semantic (TypeMismatch ''double'' ''int''))
   \<and> analyze_node cur (ParseNode ''VariableDeclaration''
         [Type_node ''double'', Identifier_node ''y'', Number_node ''5'']) =
       declare_symbol cur ''y'' ''double'' False
   \<and> run (20 + k) None ''int x = 5;'' =
       Some (Inr (SymbolTable
             [''printf'' \<mapsto> Symbol ''int'' True, ''puts'' \<mapsto> Symbol ''int'' True,
              ''getchar'' \<mapsto> Symbol ''int'' True, ''scanf'' \<mapsto> Symbol ''int'' True,
              ''x'' \<mapsto> Symbol ''int'' False] None))
   \<and> run (20 + k) None ''int x = 1e5;'' = Some (Inl (Semantic (TypeMismatch ''double'' ''int'')))
   \<and> run (20 + k) None ''double y = 5;'' =
       Some (Inr (SymbolTable
             [''printf'' \<mapsto> Symbol ''int'' True, ''puts'' \<mapsto> Symbol ''int'' True,
              ''getchar'' \<mapsto> Symbol ''int'' True, ''scanf'' \<mapsto> Symbol ''int'' True,
              ''y'' \<mapsto> Symbol ''double'' False] None))"
proof -
  have a: "analyze_node cur (ParseNode ''VariableDeclaration''
         [Type_node ''int'', Identifier_node ''x'', Number_node ''5'']) =
       declare_symbol cur ''x'' ''int'' False"
    by (simp only: analyze_node_VariableDeclaration
          variable_declaration_init [OF payload_Type_node payload_Identifier_node] plain_literals)
       (simp add: type_check_assignment_def startswith_Number_node infer_5 is_compatible_type_iff)
  have b: "analyze_node cur (ParseNode ''VariableDeclaration''
         [Type_node ''int'', Identifier_node ''x'', Number_node ''5.0'']) =
       Inl (Semantic (TypeMismatch ''double'' ''int''))"
    by (simp only: analyze_node_VariableDeclaration
          variable_declaration_init [OF payload_Type_node payload_Identifier_node] plain_literals)
       (simp add: type_check_assignment_def startswith_Number_node infer_5_0 is_compatible_type_iff)
  have c: "analyze_node cur (ParseNode ''VariableDeclaration''
         [Type_node ''double'', Identifier_node ''y'', Number_node ''5'']) =
       declare_symbol cur ''y'' ''double'' False"
    by (simp only: analyze_node_VariableDeclaration
          variable_declaration_init [OF payload_Type_node payload_Identifier_node] plain_literals)
       (simp add: type_check_assignment_def startswith_Number_node infer_5 is_compatible_type_iff)
  have d: "startswith (name v) ''Number'' \<longrightarrow> infer_number_type v = Inr vt \<longrightarrow>
        type_check_assignment cur t1 v =
          (if is_compatible_type t1 vt then Inr () else Inl (Semantic (TypeMismatch vt t1)))"
    by (simp add: type_check_assignment_def)
  have e: "\<not> startswith (name w) ''Number'' \<longrightarrow> startswith (name w) ''Identifier'' \<longrightarrow>
        payload w = Inr x \<longrightarrow> lookup cur x = Inr info \<longrightarrow>
        type_check_assignment cur t1 w =
          (if is_compatible_type t1 (type info) then Inr ()
           else Inl (Semantic (AssignmentError (TypeMismatch (type info) t1))))"
    by (simp add: type_check_assignment_def)
  note r = run_more_fuel [OF run_int_x_5, of k] run_more_fuel [OF run_int_x_1e5, of k]
    run_more_fuel [OF run_double_y_5, of k]
  from is_compatible_type_iff [of t1 t2] d e a b c r show ?thesis by (intro conjI)
qed

theorem type_compatibility_relation_witness:
  "startswith (name (Number_node ''5.0'')) ''Number'' \<and>
   infer_number_type (Number_node ''5.0'') = Inr ''double'' \<and>
   \<not> is_compatible_type ''int'' ''double'' \<and>
   type_check_assignment (SymbolTable [''y'' \<mapsto> Symbol ''double'' False] None) ''int''
     (Number_node ''5.0'') = Inl (Semantic (TypeMismatch ''double'' ''int'')) \<and>
   \<not> startswith (name (Identifier_node ''y'')) ''Number'' \<and>
   startswith (name (Identifier_node ''y'')) ''Identifier'' \<and>
   payload (Identifier_node ''y'') = Inr ''y'' \<and>
   lookup (SymbolTable [''y'' \<mapsto> Symbol ''double'' False] None) ''y'' = Inr (Symbol ''double'' False) \<and>
   type_check_assignment (SymbolTable [''y'' \<mapsto> Symbol ''double'' False] None) ''int''
     (Identifier_node ''y'') = Inl (Semantic (AssignmentError (TypeMismatch ''double'' ''int'')))"
  using type_compatibility_relation [where ?t1.0 = "''int''" and ?t2.0 = "''double''"
      and v = "Number_node ''5.0''" and vt = "''double''"
      and cur = "SymbolTable [''y'' \<mapsto> Symbol ''double'' False] None"
      and w = "Identifier_node ''y''" and x = "''y''" and info = "Symbol ''double'' False"]
  by (simp add: startswith_Number_node infer_5_0 startswith_Identifier_node
        payload_Identifier_node plain_literals del: analyze_node.simps)

section \<open>Function calls\<close>

text \<open>
  C5. The analysis of a \<open>FunctionCall\<close> node with callee name \<open>f\<close> fails with the
  undeclared-symbol error, under the prefix of the call handler, when no dictionary of
  the chain has \<open>f\<close>; it fails with the not-a-function error when \<open>f\<close> resolves to a
  symbol that is no function; and it succeeds, leaving the table as it is, when \<open>f\<close>
  resolves to a function.
\<close>

theorem function_call_callee_errors:
  assumes "payload callee = Inr f"
  shows "((\<forall>m \<in> set (scopes cur). m f = None) \<longrightarrow>
            analyze_node cur (ParseNode ''FunctionCall'' (callee # args)) =
              Inl (Semantic (FunctionCallError (UndeclaredSymbol f))))
       \<and> (\<forall>info. lookup cur f = Inr info \<and> \<not> is_function info \<longrightarrow>
            analyze_node cur (ParseNode ''FunctionCall'' (callee # args)) =
              Inl (Semantic (FunctionCallError (NotAFunction f))))
       \<and> (\<forall>info. lookup cur f = Inr info \<and> is_function info \<longrightarrow>
            analyze_node cur (ParseNode ''FunctionCall'' (callee # args)) = Inr cur)"
  using lookup_absent [of cur f]
  by (auto simp: analyze_node_FunctionCall function_call_result [OF assms]
        simp del: analyze_node.simps)

theorem function_call_callee_errors_witness:
  "payload (Identifier_node ''foo'') = Inr ''foo'' \<and>
   lookup (SymbolTable [''x'' \<mapsto> Symbol ''int'' False]
        (Some (SymbolTable [''printf'' \<mapsto> Symbol ''int'' True] None))) ''foo'' =
     Inl (Semantic (UndeclaredSymbol ''foo'')) \<and>
   analyze_node (SymbolTable [''x'' \<mapsto> Symbol ''int'' False]
        (Some (SymbolTable [''printf'' \<mapsto> Symbol ''int'' True] None)))
     (ParseNode ''FunctionCall'' [Identifier_node ''foo'']) =
     Inl (Semantic (FunctionCallError (UndeclaredSymbol ''foo''))) \<and>
   payload (Identifier_node ''x'') = Inr ''x'' \<and>
   lookup (SymbolTable [''x'' \<mapsto> Symbol ''int'' False]
        (Some (SymbolTable [''printf'' \<mapsto> Symbol ''int'' True] None))) ''x'' = Inr (Symbol ''int'' False) \<and>
   analyze_node (SymbolTable [''x'' \<mapsto> Symbol ''int'' False]
        (Some (SymbolTable [''printf'' \<mapsto> Symbol ''int'' True] None)))
     (ParseNode ''FunctionCall'' [Identifier_node ''x'']) =
     Inl (Semantic (FunctionCallError (NotAFunction ''x''))) \<and>
   payload (Identifier_node ''printf'') = Inr ''printf'' \<and>
   lookup (SymbolTable [''x'' \<mapsto> Symbol ''int'' False]
        (Some (SymbolTable [''printf'' \<mapsto> Symbol ''int'' True] None))) ''printf'' = Inr (Symbol ''int'' True) \<and>
   analyze_node (SymbolTable [''x'' \<mapsto> Symbol ''int'' False]
        (Some (SymbolTable [''printf'' \<mapsto> Symbol ''int'' True] None)))
     (ParseNode ''FunctionCall'' [Identifier_node ''printf'', Identifier_node ''x'']) =
     Inr (SymbolTable [''x'' \<mapsto> Symbol ''int'' False]
        (Some (SymbolTable [''printf'' \<mapsto> Symbol ''int'' True] None)))"
proof -
  have p: "payload (Identifier_node ''foo'') = Inr ''foo''"
     "payload (Identifier_node ''x'') = Inr ''x''"
     "payload (Identifier_node ''printf'') = Inr ''printf''"
    by (simp_all add: payload_Identifier_node plain_def)
  show ?thesis
    using function_call_callee_errors [OF p(1), of "SymbolTable [''x'' \<mapsto> Symbol ''int'' False]
        (Some (SymbolTable [''printf'' \<mapsto> Symbol ''int'' True] None))" "[]"]
      function_call_callee_errors [OF p(2), of "SymbolTable [''x'' \<mapsto> Symbol ''int'' False]
        (Some (SymbolTable [''printf'' \<mapsto> Symbol ''int'' True] None))" "[]"]
      function_call_callee_errors [OF p(3), of "SymbolTable [''x'' \<mapsto> Symbol ''int'' False]
        (Some (SymbolTable [''printf'' \<mapsto> Symbol ''int'' True] None))" "[Identifier_node ''x'']"]
    by (simp add: p del: analyze_node.simps)
qed

text \<open>
  C9. Only the first child of a \<open>FunctionCall\<close> node is read: the result for a callee
  with arguments is the result for the callee alone, and a call whose callee resolves to
  a function succeeds with the table unchanged whatever the arguments are, be it an
  undeclared identifier or a call that fails on its own.
\<close>

theorem function_call_ignores_arguments:
  "analyze_function_call cur (ParseNode nm (callee # args)) =
     analyze_function_call cur (ParseNode nm [callee])
   \<and> (payload callee = Inr f \<longrightarrow> lookup cur f = Inr info \<longrightarrow> is_function info \<longrightarrow>
        analyze_node cur (ParseNode ''FunctionCall'' (callee # args)) = Inr cur)"
  by (simp add: analyze_node_FunctionCall function_call_result del: analyze_node.simps)
     (simp add: analyze_function_call_def subscript_def)

theorem function_call_ignores_arguments_witness:
  "payload (Identifier_node ''printf'') = Inr ''printf'' \<and>
   lookup (SymbolTable [''printf'' \<mapsto> Symbol ''int'' True] None) ''printf'' = Inr (Symbol ''int'' True) \<and>
   is_function (Symbol ''int'' True) \<and>
   analyze_node (SymbolTable [''printf'' \<mapsto> Symbol ''int'' True] None)
     (ParseNode ''FunctionCall''
        [Identifier_node ''printf'', Identifier_node ''y'',
         ParseNode ''FunctionCall'' [Identifier_node ''foo'', Number_node ''1x'']]) =
     Inr (SymbolTable [''printf'' \<mapsto> Symbol ''int'' True] None) \<and>
   lookup (SymbolTable [''printf'' \<mapsto> Symbol ''int'' True] None) ''y'' =
     Inl (Semantic (UndeclaredSymbol ''y'')) \<and>
   analyze_node (SymbolTable [''printf'' \<mapsto> Symbol ''int'' True] None)
     (ParseNode ''FunctionCall'' [Identifier_node ''foo'', Number_node ''1x'']) =
     Inl (Semantic (FunctionCallError (UndeclaredSymbol ''foo'')))"
proof -
  have p: "payload (Identifier_node ''printf'') = Inr ''printf''"
     "payload (Identifier_node ''foo'') = Inr ''foo''"
    by (simp_all add: payload_Identifier_node plain_def)
  show ?thesis
    using function_call_ignores_arguments [where callee = "Identifier_node ''printf''" and f = "''printf''"
        and cur = "SymbolTable [''printf'' \<mapsto> Symbol ''int'' True] None"
        and info = "Symbol ''int'' True"
        and args = "[Identifier_node ''y'',
         ParseNode ''FunctionCall'' [Identifier_node ''foo'', Number_node ''1x'']]"]
    by (simp add: p analyze_node_FunctionCall function_call_result del: analyze_node.simps)
qed

section \<open>The constructor of the analyzer\<close>

text \<open>
  C10. The analyzer made with the empty dictionary of predefined functions is the one
  made with none: its global table holds \<open>printf\<close>, \<open>puts\<close>, \<open>getchar\<close> and \<open>scanf\<close>, each
  a function of type \<open>int\<close>, and has no parent.
\<close>

theorem empty_predefined_falls_back_to_default:
  "SemanticAnalyzer (Some []) = SemanticAnalyzer None \<and>
   SemanticAnalyzer None =
     Inr (SymbolTable
           [''printf'' \<mapsto> Symbol ''int'' True, ''puts'' \<mapsto> Symbol ''int'' True,
            ''getchar'' \<mapsto> Symbol ''int'' True, ''scanf'' \<mapsto> Symbol ''int'' True] None)"
  by (simp add: SemanticAnalyzer_def default_functions_def)

end
